theory Spec2Isabelle
  imports Main "HOL-Library.Word"
begin

unbundle bit_operations_syntax

section \<open>Exceptions and results\<close>

text \<open>
  The exceptions the sources raise and catch, and the two errors of the operating system
  that a file operation raises. \<open>OtherError\<close> stands for any exception that no handler of
  the modelled code names. \<open>str\<close> is Python's \<open>str(e)\<close>: the text the
  exception was raised with.
\<close>

datatype exn =
    is_TerraformException: TerraformException string
  | is_JujuWaitException: JujuWaitException string
  | is_TimeoutException: TimeoutException string
  | is_ApplicationNotFoundException: ApplicationNotFoundException string
  | is_ValueError: ValueError string
  | FileNotFoundError string
  | PermissionError string
  | OtherError string

fun str :: "exn \<Rightarrow> string" where
  "str (TerraformException m) = m"
| "str (JujuWaitException m) = m"
| "str (TimeoutException m) = m"
| "str (ApplicationNotFoundException m) = m"
| "str (ValueError m) = m"
| "str (FileNotFoundError m) = m"
| "str (PermissionError m) = m"
| "str (OtherError m) = m"

text \<open>
  \<open>Result(result_type, message)\<close>: the message is optional (\<open>Result(ResultType.COMPLETED)\<close>
  gives none).
\<close>

datatype ResultType = COMPLETED | FAILED | SKIPPED

datatype Result = Result (result_type: ResultType) (message: "string option")

section \<open>Instance recovery: which consul servers to enable\<close>

text \<open>
  \<open>sunbeam/features/instance_recovery/feature.py\<close>. The deployment is an opaque collaborator;
  the feature reads \<open>get_space(network)\<close>, which returns the Juju space of a network or
  raises, and \<open>openstack_machines_model\<close>.
\<close>

datatype Networks = MANAGEMENT | STORAGE | DATA

datatype ConsulServerNetworks = MANAGEMENT | TENANT | STORAGE

text \<open>
  \<open>enum_value k\<close> is \<open>k.value\<close>, the string of a member of the enumeration.
\<close>

fun enum_value :: "ConsulServerNetworks \<Rightarrow> string" where
  "enum_value ConsulServerNetworks.MANAGEMENT = ''management''"
| "enum_value ConsulServerNetworks.TENANT = ''tenant''"
| "enum_value ConsulServerNetworks.STORAGE = ''storage''"

record DeploymentHandle =
  get_space :: "Networks \<Rightarrow> exn + string"
  openstack_machines_model :: string

text \<open>
  A Python dict keeps insertion order, and \<open>items()\<close> is read in that order, so a dict is
  an association list with unique keys. \<open>dict_set\<close> is \<open>d[k] = v\<close>, \<open>dict_get\<close> is
  \<open>d.get(k)\<close> with \<open>None\<close> for a missing key, \<open>dict_update\<close> is \<open>d.update(e)\<close>.
\<close>

fun dict_set :: "('k \<times> 'v) list \<Rightarrow> 'k \<Rightarrow> 'v \<Rightarrow> ('k \<times> 'v) list" where
  "dict_set [] k v = [(k, v)]"
| "dict_set ((k', v') # d) k v = (if k' = k then (k, v) # d else (k', v') # dict_set d k v)"

fun dict_get :: "('k \<times> 'v) list \<Rightarrow> 'k \<Rightarrow> 'v option" where
  "dict_get [] k = None"
| "dict_get ((k', v') # d) k = (if k' = k then Some v' else dict_get d k)"

fun dict_update :: "('k \<times> 'v) list \<Rightarrow> ('k \<times> 'v) list \<Rightarrow> ('k \<times> 'v) list" where
  "dict_update d [] = d"
| "dict_update d ((k, v) # e) = dict_update (dict_set d k v) e"

text \<open>
  One \<open>try: x = deployment.get_space(n) ... except ValueError: x = None\<close> block: the space
  when the call returns, \<open>None\<close> on a \<open>ValueError\<close>, and any other exception leaves the
  function.
\<close>

definition try_get_space :: "DeploymentHandle \<Rightarrow> Networks \<Rightarrow> exn + string option" where
  "try_get_space deployment n =
     (case get_space deployment n of
        Inr s \<Rightarrow> Inr (Some s)
      | Inl e \<Rightarrow> if is_ValueError e then Inr None else Inl e)"

definition consul_servers_to_enable ::
  "DeploymentHandle \<Rightarrow> exn + (ConsulServerNetworks \<times> bool) list" where
  "consul_servers_to_enable deployment =
     (let enable = [(ConsulServerNetworks.MANAGEMENT, False),
                    (ConsulServerNetworks.TENANT, False),
                    (ConsulServerNetworks.STORAGE, False)]
      in case try_get_space deployment Networks.MANAGEMENT of
        Inl e \<Rightarrow> Inl e
      | Inr management_space \<Rightarrow>
     (let enable = (if management_space \<noteq> None
                    then dict_set enable ConsulServerNetworks.MANAGEMENT True else enable)
      in case try_get_space deployment Networks.STORAGE of
        Inl e \<Rightarrow> Inl e
      | Inr storage_space \<Rightarrow>
     (let enable = (if storage_space \<noteq> None \<and> storage_space \<noteq> management_space
                    then dict_set enable ConsulServerNetworks.STORAGE True else enable)
      in case try_get_space deployment Networks.DATA of
        Inl e \<Rightarrow> Inl e
      | Inr tenant_space \<Rightarrow>
     (let enable = (if tenant_space \<noteq> None \<and> tenant_space \<noteq> management_space
                       \<and> tenant_space \<noteq> storage_space
                    then dict_set enable ConsulServerNetworks.TENANT True else enable)
      in Inr enable))))"

text \<open>
  What the claims call a resolvable space: \<open>get_space\<close> returns it. \<open>only_ValueError\<close>
  says that a deployment fails to resolve a space by \<open>ValueError\<close> only, the one failure
  the source handles. \<open>network_of\<close> is the network whose space a consul server uses.
\<close>

definition space :: "DeploymentHandle \<Rightarrow> Networks \<Rightarrow> string option" where
  "space deployment n = (case get_space deployment n of Inr s \<Rightarrow> Some s | Inl e \<Rightarrow> None)"

fun is_ValueError_or_value :: "exn + string \<Rightarrow> bool" where
  "is_ValueError_or_value (Inr s) = True"
| "is_ValueError_or_value (Inl e) = is_ValueError e"

definition only_ValueError :: "DeploymentHandle \<Rightarrow> bool" where
  "only_ValueError deployment =
     (is_ValueError_or_value (get_space deployment Networks.MANAGEMENT) \<and>
      is_ValueError_or_value (get_space deployment Networks.STORAGE) \<and>
      is_ValueError_or_value (get_space deployment Networks.DATA))"

fun network_of :: "ConsulServerNetworks \<Rightarrow> Networks" where
  "network_of ConsulServerNetworks.MANAGEMENT = Networks.MANAGEMENT"
| "network_of ConsulServerNetworks.TENANT = Networks.DATA"
| "network_of ConsulServerNetworks.STORAGE = Networks.STORAGE"

definition set_consul_client_application_names :: "DeploymentHandle \<Rightarrow> exn + string list" where
  "set_consul_client_application_names deployment =
     (case consul_servers_to_enable deployment of
        Inl e \<Rightarrow> Inl e
      | Inr enable \<Rightarrow>
          Inr (map (\<lambda>(k, v). ''consul-client-'' @ enum_value k) (filter (\<lambda>(k, v). v) enable)))"

section \<open>Collaborators of the steps\<close>

text \<open>
  Values of Terraform variables: what a Python dict of variables holds.
\<close>

datatype pyval =
    PyNone
  | PyBool bool
  | PyInt int
  | PyStr string
  | PyList "pyval list"
  | PyDict "(string \<times> pyval) list"

type_synonym pydict = "(string \<times> pyval) list"

text \<open>
  The provisioning collaborator (Terraform helper) and the orchestration collaborator
  (Juju helper). Their code is outside the modelled sources, so each call is given by its
  outcome: \<open>Inl e\<close> when the call raises \<open>e\<close>, \<open>Inr v\<close> when it returns \<open>v\<close>.
  \<open>update_tfvars_and_apply_tf\<close> takes the configuration key, the overriding variables and
  the extra arguments of the apply. The provisioning collaborator fails in its apply and
  its destroy; \<open>backend\<close> and \<open>backend_config\<close> are plain values. A connected model is
  represented by its name. The last argument of \<open>wait_until_desired_status\<close> is its
  \<open>queue\<close>: the address of a queue object in the store of queues.
\<close>

type_synonym queue_ref = nat

record TerraformHelper =
  backend :: string
  backend_config :: pydict
  update_tfvars_and_apply_tf :: "string \<Rightarrow> pydict \<Rightarrow> string list \<Rightarrow> exn + unit"
  destroy :: "exn + unit"

record JujuHelper =
  wait_until_desired_status ::
    "string \<Rightarrow> string list \<Rightarrow> string list \<Rightarrow> nat \<Rightarrow> queue_ref \<Rightarrow> exn + unit"
  wait_until_active :: "string \<Rightarrow> string list \<Rightarrow> nat \<Rightarrow> exn + unit"
  wait_application_ready :: "string \<Rightarrow> string \<Rightarrow> nat \<Rightarrow> exn + unit"
  wait_application_gone :: "string list \<Rightarrow> string \<Rightarrow> nat \<Rightarrow> exn + unit"
  wait_model_gone :: "string \<Rightarrow> nat \<Rightarrow> exn + unit"
  get_application_names :: "string \<Rightarrow> exn + string list"
  get_model :: "string \<Rightarrow> exn + string"
  get_application :: "string \<Rightarrow> string \<Rightarrow> exn + string"
  disconnect :: "string \<Rightarrow> exn + unit"

text \<open>
  The instance recovery feature, as far as the steps read it: the configuration the
  manifest gives for a charm and a network (\<open>get_config_from_manifest\<close> reads the manifest
  only, and the manifest is outside the modelled sources) and the two timeouts. The
  function \<open>update_config\<close> of \<open>sunbeam.core.common\<close>, which stores the variables of a
  disabled feature in the cluster database, is kept with the feature.
\<close>

record InstanceRecoveryFeature =
  get_config_from_manifest :: "string \<Rightarrow> ConsulServerNetworks \<Rightarrow> pydict"
  set_application_timeout_on_enable :: nat
  set_application_timeout_on_disable :: nat
  update_config :: "string \<Rightarrow> pydict \<Rightarrow> exn + unit"

subsection \<open>The progress queue and the background task\<close>

text \<open>
  \<open>asyncio.Queue(maxsize)\<close>: a queue whose \<open>maxsize\<close> is zero or less is unbounded, and
  \<open>full()\<close> is then never true; otherwise the queue is full when it holds \<open>maxsize\<close>
  entries.
\<close>

record Queue =
  maxsize :: int
  entries :: "string list"

definition Queue_new :: "int \<Rightarrow> Queue" where
  "Queue_new n = \<lparr>maxsize = n, entries = []\<rparr>"


text \<open>
  A queue is an object that a step hands to its collaborators, so the queues live in a
  store: the list of the queue objects, each addressed by its position.
  \<open>asyncio.Queue(maxsize=n)\<close> adds a new empty queue to the store and gives its address.
\<close>

definition Queue_alloc :: "int \<Rightarrow> Queue list \<Rightarrow> queue_ref \<times> Queue list" where
  "Queue_alloc n store = (length store, store @ [Queue_new n])"

text \<open>
  An \<open>asyncio.Task\<close>. \<open>task_done\<close> is \<open>done()\<close>: it holds of a task that has finished
  or has been cancelled. \<open>cancel()\<close> does nothing to a task that is done; on any other task
  it only requests the cancellation, which the event loop delivers to the task the next
  time the loop runs (\<open>loop_delivers\<close>); until then the task is neither done nor
  cancelled. The steps run the loop inside \<open>run_sync\<close> only.
\<close>

datatype task_state = Running | CancelRequested | Cancelled | Finished

fun task_done :: "task_state \<Rightarrow> bool" where
  "task_done Running = False"
| "task_done CancelRequested = False"
| "task_done Cancelled = True"
| "task_done Finished = True"

fun cancel :: "task_state \<Rightarrow> task_state" where
  "cancel Running = CancelRequested"
| "cancel t = t"

fun loop_delivers :: "task_state \<Rightarrow> task_state" where
  "loop_delivers CancelRequested = Cancelled"
| "loop_delivers t = t"

text \<open>
  The calls a step makes for its wait, with their arguments:
  \<open>update_status_background(self, apps, queue, status)\<close>, which starts the background
  poller (its queue is \<open>None\<close> where the step passes none), and the wait of the Juju helper.
\<close>

datatype wait_call =
    Update_status_background "string list" "queue_ref option"
  | Wait_until_desired_status string "string list" "string list" nat queue_ref
  | Wait_until_active string "string list" nat

text \<open>
  What a step's \<open>run\<close> leaves behind: the result it returns or the exception that leaves
  it, the store of the queues it created, the calls it made for its wait, in their order,
  and the state of the background task it started (\<open>None\<close> when \<open>run\<close> ended before
  starting it).
\<close>

record step_exit =
  returned :: "exn + Result"
  queues :: "Queue list"
  wait_calls :: "wait_call list"
  task :: "task_state option"

definition exit_early :: "exn + Result \<Rightarrow> step_exit" where
  "exit_early r = \<lparr>returned = r, queues = [], wait_calls = [], task = None\<rparr>"

section \<open>Instance recovery: the consul client steps\<close>

definition CONSUL_CLIENT_MANAGEMENT_SERF_LAN_PORT :: int where
  "CONSUL_CLIENT_MANAGEMENT_SERF_LAN_PORT = 8301"

definition CONSUL_CLIENT_TENANT_SERF_LAN_PORT :: int where
  "CONSUL_CLIENT_TENANT_SERF_LAN_PORT = 8311"

definition CONSUL_CLIENT_STORAGE_SERF_LAN_PORT :: int where
  "CONSUL_CLIENT_STORAGE_SERF_LAN_PORT = 8321"

definition CONSUL_CLIENT_CONFIG_KEY :: string where
  "CONSUL_CLIENT_CONFIG_KEY = ''TerraformVarsFeatureConsulPlanConsulClient''"

definition PRINCIPAL_APP :: string where
  "PRINCIPAL_APP = ''openstack-hypervisor''"

text \<open>
  \<open>_get_tfvars\<close> has one block for each consul server network; the three blocks differ in
  the network \<open>k\<close>, the port and the network \<open>n\<close> of the endpoint binding only, and
  \<open>consul_block\<close> is that block. \<open>st\<close> is the triple of \<open>tfvars\<close>,
  \<open>consul_config_map\<close> and \<open>consul_endpoint_bindings_map\<close>. The block calls
  \<open>get_space\<close> outside any handler, first for the management network and then for \<open>n\<close>.
\<close>

definition consul_block ::
  "DeploymentHandle \<Rightarrow> InstanceRecoveryFeature \<Rightarrow> (ConsulServerNetworks \<times> bool) list \<Rightarrow>
   ConsulServerNetworks \<Rightarrow> int \<Rightarrow> Networks \<Rightarrow> pydict \<times> pydict \<times> pydict \<Rightarrow>
   exn + pydict \<times> pydict \<times> pydict" where
  "consul_block deployment feature servers_to_enable k port n st =
     (case st of (tfvars, consul_config_map, consul_endpoint_bindings_map) \<Rightarrow>
      if dict_get servers_to_enable k = Some True then
        (let tfvars = dict_set tfvars (''enable-consul-'' @ enum_value k) (PyBool True);
             config = dict_update [(''serf-lan-port'', PyInt port)]
                        (get_config_from_manifest feature ''consul-client'' k);
             consul_config_map = dict_set consul_config_map (''consul-'' @ enum_value k) (PyDict config)
         in case get_space deployment Networks.MANAGEMENT of
              Inl e \<Rightarrow> Inl e
            | Inr s1 \<Rightarrow>
         (case get_space deployment n of
              Inl e \<Rightarrow> Inl e
            | Inr s2 \<Rightarrow>
                Inr (tfvars, consul_config_map,
                     dict_set consul_endpoint_bindings_map (''consul-'' @ enum_value k)
                       (PyList [PyDict [(''space'', PyStr s1)],
                                PyDict [(''endpoint'', PyStr ''consul''), (''space'', PyStr s2)]]))))
      else Inr (dict_set tfvars (''enable-consul-'' @ enum_value k) (PyBool False),
                consul_config_map, consul_endpoint_bindings_map))"

definition get_tfvars ::
  "DeploymentHandle \<Rightarrow> InstanceRecoveryFeature \<Rightarrow> TerraformHelper \<Rightarrow> exn + pydict" where
  "get_tfvars deployment feature openstack_tfhelper =
     (let tfvars = [(''principal-application-model'', PyStr (openstack_machines_model deployment)),
                    (''principal-application'', PyStr PRINCIPAL_APP),
                    (''openstack-state-backend'', PyStr (backend openstack_tfhelper)),
                    (''openstack-state-config'', PyDict (backend_config openstack_tfhelper))]
      in case consul_servers_to_enable deployment of
        Inl e \<Rightarrow> Inl e
      | Inr servers_to_enable \<Rightarrow>
     (case consul_block deployment feature servers_to_enable ConsulServerNetworks.MANAGEMENT
             CONSUL_CLIENT_MANAGEMENT_SERF_LAN_PORT Networks.MANAGEMENT (tfvars, [], []) of
        Inl e \<Rightarrow> Inl e
      | Inr st \<Rightarrow>
     (case consul_block deployment feature servers_to_enable ConsulServerNetworks.TENANT
             CONSUL_CLIENT_TENANT_SERF_LAN_PORT Networks.DATA st of
        Inl e \<Rightarrow> Inl e
      | Inr st \<Rightarrow>
     (case consul_block deployment feature servers_to_enable ConsulServerNetworks.STORAGE
             CONSUL_CLIENT_STORAGE_SERF_LAN_PORT Networks.STORAGE st of
        Inl e \<Rightarrow> Inl e
      | Inr (tfvars, consul_config_map, consul_endpoint_bindings_map) \<Rightarrow>
          Inr (dict_set (dict_set tfvars ''consul-config-map'' (PyDict consul_config_map))
                 ''consul-endpoint-bindings-map'' (PyDict consul_endpoint_bindings_map))))))"

text \<open>
  \<open>DeployConsulClientStep.run\<close>. The arguments are the fields the constructor stores;
  \<open>self.model\<close> is \<open>deployment.openstack_machines_model\<close>. \<open>task_finished\<close> tells whether
  the background task that \<open>update_status_background\<close> starts has finished by itself when
  the wait is over, which the step's code does not decide. The \<open>finally\<close> clause runs on
  every way out of the \<open>try\<close>, with the result or the exception of the \<open>try\<close> kept; no
  \<open>run_sync\<close> follows it. The step creates one queue, in a store of its own, and passes
  its address to \<open>update_status_background\<close> and to \<open>wait_until_desired_status\<close>. The
  updates of the progress display (\<open>update_status\<close>) and the log lines are left out.
\<close>

definition DeployConsulClientStep_run ::
  "DeploymentHandle \<Rightarrow> InstanceRecoveryFeature \<Rightarrow> TerraformHelper \<Rightarrow> TerraformHelper \<Rightarrow>
   JujuHelper \<Rightarrow> string list \<Rightarrow> bool \<Rightarrow> step_exit" where
  "DeployConsulClientStep_run deployment feature tfhelper openstack_tfhelper jhelper
       app_desired_status task_finished =
     (case get_tfvars deployment feature openstack_tfhelper of
        Inl e \<Rightarrow> exit_early (Inl e)
      | Inr extra_tfvars \<Rightarrow>
     (case update_tfvars_and_apply_tf tfhelper CONSUL_CLIENT_CONFIG_KEY extra_tfvars [] of
        Inl e \<Rightarrow>
          if is_TerraformException e then exit_early (Inr (Result FAILED (Some (str e))))
          else exit_early (Inl e)
      | Inr u \<Rightarrow>
     (case set_consul_client_application_names deployment of
        Inl e \<Rightarrow> exit_early (Inl e)
      | Inr apps \<Rightarrow>
         (let (queue, store) = Queue_alloc (int (length apps)) [];
              started = Update_status_background apps (Some queue);
              task = (if task_finished then Finished else Running);
              waited = Wait_until_desired_status (openstack_machines_model deployment) apps
                         app_desired_status (set_application_timeout_on_enable feature) queue;
              r = (case wait_until_desired_status jhelper (openstack_machines_model deployment)
                          apps app_desired_status (set_application_timeout_on_enable feature)
                          queue of
                     Inl e \<Rightarrow>
                       if is_JujuWaitException e \<or> is_TimeoutException e
                       then Inr (Result FAILED (Some (str e)))
                       else Inl e
                   | Inr u \<Rightarrow> Inr (Result COMPLETED None));
              task = (if \<not> task_done task then cancel task else task)
          in \<lparr>returned = r, queues = store, wait_calls = [started, waited],
              task = Some task\<rparr>))))"

text \<open>
  \<open>set_tfvars_on_disable\<close> and \<open>RemoveConsulClientStep.run\<close>.
\<close>

definition set_tfvars_on_disable :: pydict where
  "set_tfvars_on_disable =
     [(''enable-masakari'', PyBool False),
      (''enable-consul-management'', PyBool False),
      (''enable-consul-tenant'', PyBool False),
      (''enable-consul-storage'', PyBool False)]"

definition RemoveConsulClientStep_run ::
  "DeploymentHandle \<Rightarrow> InstanceRecoveryFeature \<Rightarrow> TerraformHelper \<Rightarrow> JujuHelper \<Rightarrow>
   exn + Result" where
  "RemoveConsulClientStep_run deployment feature tfhelper jhelper =
     (case destroy tfhelper of
        Inl e \<Rightarrow> if is_TerraformException e then Inr (Result FAILED (Some (str e))) else Inl e
      | Inr u \<Rightarrow>
     (case set_consul_client_application_names deployment of
        Inl e \<Rightarrow> Inl e
      | Inr apps \<Rightarrow>
     (case wait_application_gone jhelper apps (openstack_machines_model deployment)
             (set_application_timeout_on_disable feature) of
        Inl e \<Rightarrow> if is_TimeoutException e then Inr (Result FAILED (Some (str e))) else Inl e
      | Inr u \<Rightarrow>
     (case update_config feature CONSUL_CLIENT_CONFIG_KEY set_tfvars_on_disable of
        Inl e \<Rightarrow> Inl e
      | Inr u \<Rightarrow> Inr (Result COMPLETED None)))))"

section \<open>Observability: the steps of the plugin\<close>

text \<open>
  \<open>sunbeam/plugins/observability/plugin.py\<close>. The plugin, as far as its steps read it:
  \<open>proxy_model_config\<close> is the dict that \<open>convert_proxy_to_model_configs\<close> makes of the
  proxy settings of the deployment; \<open>MICROK8S_CLOUD\<close>, \<open>CREDENTIAL_SUFFIX\<close> and
  \<open>MICROK8S_DEFAULT_STORAGECLASS\<close> are constants imported from a module outside the
  modelled sources; \<open>manifest_update_tfvars_and_apply_tf\<close> is the
  manifest's \<open>update_tfvars_and_apply_tf\<close> with the plan, the configuration key, the
  overriding variables and the extra arguments; \<open>get_tfhelper\<close> is the manifest's.
\<close>

record ObservabilityPlugin =
  proxy_model_config :: pydict
  MICROK8S_CLOUD :: string
  CREDENTIAL_SUFFIX :: string
  MICROK8S_DEFAULT_STORAGECLASS :: string
  manifest_update_tfvars_and_apply_tf ::
    "string \<Rightarrow> string \<Rightarrow> pydict \<Rightarrow> string list \<Rightarrow> exn + unit"
  get_tfhelper :: "string \<Rightarrow> TerraformHelper"
  infrastructure_model :: string

definition OBSERVABILITY_MODEL :: string where
  "OBSERVABILITY_MODEL = ''observability''"

definition OBSERVABILITY_DEPLOY_TIMEOUT :: nat where
  "OBSERVABILITY_DEPLOY_TIMEOUT = 1200"

definition COS_TFPLAN :: string where
  "COS_TFPLAN = ''cos-plan''"

definition GRAFANA_AGENT_TFPLAN :: string where
  "GRAFANA_AGENT_TFPLAN = ''grafana-agent-plan''"

definition COS_CONFIG_KEY :: string where
  "COS_CONFIG_KEY = ''TerraformVarsPluginObservabilityPlanCos''"

definition GRAFANA_AGENT_CONFIG_KEY :: string where
  "GRAFANA_AGENT_CONFIG_KEY = ''TerraformVarsPluginObservabilityPlanGrafanaAgent''"

text \<open>
  The variables that \<open>DeployObservabilityStackStep.run\<close> and
  \<open>UpdateObservabilityModelConfigStep.run\<close> both build before their \<open>try\<close>.
\<close>

definition cos_extra_tfvars :: "ObservabilityPlugin \<Rightarrow> pydict" where
  "cos_extra_tfvars plugin =
     (let model_config = dict_update (proxy_model_config plugin)
            [(''workload-storage'', PyStr (MICROK8S_DEFAULT_STORAGECLASS plugin))]
      in [(''model'', PyStr OBSERVABILITY_MODEL),
          (''cloud'', PyStr (MICROK8S_CLOUD plugin)),
          (''credential'', PyStr (MICROK8S_CLOUD plugin @ CREDENTIAL_SUFFIX plugin)),
          (''config'', PyDict model_config)])"

definition DeployObservabilityStackStep_run ::
  "ObservabilityPlugin \<Rightarrow> JujuHelper \<Rightarrow> bool \<Rightarrow> step_exit" where
  "DeployObservabilityStackStep_run plugin jhelper task_finished =
     (let extra_tfvars = cos_extra_tfvars plugin
      in case manifest_update_tfvars_and_apply_tf plugin COS_TFPLAN COS_CONFIG_KEY
                extra_tfvars [] of
        Inl e \<Rightarrow>
          if is_TerraformException e then exit_early (Inr (Result FAILED (Some (str e))))
          else exit_early (Inl e)
      | Inr u \<Rightarrow>
     (case get_application_names jhelper OBSERVABILITY_MODEL of
        Inl e \<Rightarrow> exit_early (Inl e)
      | Inr apps \<Rightarrow>
         (let started = Update_status_background apps None;
              task = (if task_finished then Finished else Running);
              waited = Wait_until_active OBSERVABILITY_MODEL apps OBSERVABILITY_DEPLOY_TIMEOUT;
              r = (case wait_until_active jhelper OBSERVABILITY_MODEL apps
                          OBSERVABILITY_DEPLOY_TIMEOUT of
                     Inl e \<Rightarrow>
                       if is_JujuWaitException e \<or> is_TimeoutException e
                       then Inr (Result FAILED (Some (str e)))
                       else Inl e
                   | Inr u \<Rightarrow> Inr (Result COMPLETED None));
              task = (if \<not> task_done task then cancel task else task)
          in \<lparr>returned = r, queues = [], wait_calls = [started, waited],
              task = Some task\<rparr>)))"

definition UpdateObservabilityModelConfigStep_run :: "ObservabilityPlugin \<Rightarrow> exn + Result" where
  "UpdateObservabilityModelConfigStep_run plugin =
     (let extra_tfvars = cos_extra_tfvars plugin
      in case manifest_update_tfvars_and_apply_tf plugin COS_TFPLAN COS_CONFIG_KEY
                extra_tfvars [''-target=juju_model.cos''] of
        Inl e \<Rightarrow> if is_TerraformException e then Inr (Result FAILED (Some (str e))) else Inl e
      | Inr u \<Rightarrow> Inr (Result COMPLETED None))"

text \<open>
  The variables that \<open>DeployGrafanaAgentStep.run\<close> builds before its \<open>try\<close>.
\<close>

definition grafana_agent_extra_tfvars :: "ObservabilityPlugin \<Rightarrow> pydict" where
  "grafana_agent_extra_tfvars plugin =
     (let tfhelper_cos = get_tfhelper plugin COS_TFPLAN
      in [(''principal-application-model'', PyStr (infrastructure_model plugin)),
          (''cos-state-backend'', PyStr (backend tfhelper_cos)),
          (''cos-state-config'', PyDict (backend_config tfhelper_cos)),
          (''principal-application'', PyStr ''openstack-hypervisor'')])"

definition DeployGrafanaAgentStep_run :: "ObservabilityPlugin \<Rightarrow> JujuHelper \<Rightarrow> exn + Result" where
  "DeployGrafanaAgentStep_run plugin jhelper =
     (let extra_tfvars = grafana_agent_extra_tfvars plugin
      in case manifest_update_tfvars_and_apply_tf plugin GRAFANA_AGENT_TFPLAN
                GRAFANA_AGENT_CONFIG_KEY extra_tfvars [] of
        Inl e \<Rightarrow> if is_TerraformException e then Inr (Result FAILED (Some (str e))) else Inl e
      | Inr u \<Rightarrow>
     (case wait_application_ready jhelper ''grafana-agent'' (infrastructure_model plugin)
             OBSERVABILITY_DEPLOY_TIMEOUT of
        Inl e \<Rightarrow>
          if is_JujuWaitException e \<or> is_TimeoutException e
          then Inr (Result FAILED (Some (str e)))
          else Inl e
      | Inr u \<Rightarrow> Inr (Result COMPLETED None)))"

definition RemoveObservabilityStackStep_run ::
  "ObservabilityPlugin \<Rightarrow> JujuHelper \<Rightarrow> exn + Result" where
  "RemoveObservabilityStackStep_run plugin jhelper =
     (let tfhelper = get_tfhelper plugin COS_TFPLAN
      in case destroy tfhelper of
        Inl e \<Rightarrow> if is_TerraformException e then Inr (Result FAILED (Some (str e))) else Inl e
      | Inr u \<Rightarrow>
     (case wait_model_gone jhelper OBSERVABILITY_MODEL OBSERVABILITY_DEPLOY_TIMEOUT of
        Inl e \<Rightarrow> if is_TimeoutException e then Inr (Result FAILED (Some (str e))) else Inl e
      | Inr u \<Rightarrow> Inr (Result COMPLETED None)))"

definition RemoveGrafanaAgentStep_run :: "ObservabilityPlugin \<Rightarrow> JujuHelper \<Rightarrow> exn + Result" where
  "RemoveGrafanaAgentStep_run plugin jhelper =
     (let tfhelper = get_tfhelper plugin GRAFANA_AGENT_TFPLAN
      in case destroy tfhelper of
        Inl e \<Rightarrow> if is_TerraformException e then Inr (Result FAILED (Some (str e))) else Inl e
      | Inr u \<Rightarrow>
     (let apps = [''grafana-agent'']
      in case wait_application_gone jhelper apps (infrastructure_model plugin)
                OBSERVABILITY_DEPLOY_TIMEOUT of
        Inl e \<Rightarrow> if is_TimeoutException e then Inr (Result FAILED (Some (str e))) else Inl e
      | Inr u \<Rightarrow> Inr (Result COMPLETED None)))"

section \<open>Certificates: the skip check of the provider step\<close>

text \<open>
  \<open>sunbeam/steps/certificates.py\<close>, \<open>DeployCertificatesProviderApplicationStep.is_skip\<close>.
  The \<open>try\<close> either returns (\<open>Some\<close> of the result, on \<open>ApplicationNotFoundException\<close>),
  lets another exception through, or falls through (\<open>None\<close>); the \<open>finally\<close> clause then
  disconnects the model, and an exception it raises replaces whatever the \<open>try\<close> gave.
\<close>

definition APPLICATION :: string where
  "APPLICATION = ''tls-operator''"

definition DeployCertificatesProviderApplicationStep_is_skip ::
  "JujuHelper \<Rightarrow> string \<Rightarrow> exn + Result" where
  "DeployCertificatesProviderApplicationStep_is_skip jhelper model_name =
     (case get_model jhelper model_name of
        Inl e \<Rightarrow> Inl e
      | Inr model \<Rightarrow>
         (let tried = (case get_application jhelper APPLICATION model of
                         Inl e \<Rightarrow>
                           if is_ApplicationNotFoundException e
                           then Inr (Some (Result COMPLETED None))
                           else Inl e
                       | Inr app \<Rightarrow> Inr None)
          in case disconnect jhelper model of
               Inl e \<Rightarrow> Inl e
             | Inr u \<Rightarrow>
                 (case tried of
                    Inl e \<Rightarrow> Inl e
                  | Inr (Some r) \<Rightarrow> Inr r
                  | Inr None \<Rightarrow> Inr (Result SKIPPED None))))"

section \<open>The plan runner\<close>

text \<open>
  Modelled from the spec: \<open>run_plan\<close> and the step interface of \<open>sunbeam/core/common.py\<close>,
  which is not among the sources. A step has a skip check and an execution body; both act
  on the external world \<open>'w\<close> and give a result or raise. The runner takes the steps in
  order. It calls \<open>is_skip\<close>; on \<open>SKIPPED\<close> it advances to the next step without calling
  \<open>run\<close>; otherwise it calls \<open>run\<close>; on \<open>FAILED\<close> it aborts the remaining steps and
  signals failure with the message; otherwise it continues. When all steps are through it
  returns success. An \<open>is_skip\<close> that raises is treated as \<open>FAILED\<close>; an exception of
  \<open>run\<close> is a programming defect and propagates. The runner's log lists the calls it
  made: the index of the step and what the call gave.
\<close>

record 'w BaseStep =
  is_skip :: "'w \<Rightarrow> (exn + Result) \<times> 'w"
  run :: "'w \<Rightarrow> (exn + Result) \<times> 'w"

datatype plan_result = Success | Failure "string option" | Propagated exn

datatype call = Call_is_skip nat "exn + Result" | Call_run nat "exn + Result"

fun step_index :: "call \<Rightarrow> nat" where
  "step_index (Call_is_skip i r) = i"
| "step_index (Call_run i r) = i"

fun run_plan_from ::
  "nat \<Rightarrow> 'w BaseStep list \<Rightarrow> 'w \<Rightarrow> plan_result \<times> call list \<times> 'w" where
  "run_plan_from i [] w = (Success, [], w)"
| "run_plan_from i (step # plan) w =
     (case is_skip step w of
        (Inl e, w1) \<Rightarrow> (Failure (Some (str e)), [Call_is_skip i (Inl e)], w1)
      | (Inr skip_result, w1) \<Rightarrow>
          if result_type skip_result = SKIPPED then
            (case run_plan_from (Suc i) plan w1 of
               (res, calls, w') \<Rightarrow> (res, Call_is_skip i (Inr skip_result) # calls, w'))
          else
            (case run step w1 of
               (Inl e, w2) \<Rightarrow>
                 (Propagated e, [Call_is_skip i (Inr skip_result), Call_run i (Inl e)], w2)
             | (Inr result, w2) \<Rightarrow>
                 if result_type result = FAILED then
                   (Failure (message result),
                    [Call_is_skip i (Inr skip_result), Call_run i (Inr result)], w2)
                 else
                   (case run_plan_from (Suc i) plan w2 of
                      (res, calls, w') \<Rightarrow>
                        (res, Call_is_skip i (Inr skip_result) # Call_run i (Inr result) # calls,
                         w'))))"

definition run_plan :: "'w BaseStep list \<Rightarrow> 'w \<Rightarrow> plan_result \<times> call list \<times> 'w" where
  "run_plan plan w = run_plan_from 0 plan w"

section \<open>The deployment registry\<close>

text \<open>
  \<open>sunbeam/core/deployments.py\<close>. A deployment of the registry is read by its name, its
  endpoint and its type. \<open>private_path\<close> is the private attribute \<open>_path\<close>. A path is
  the pair of its directory and its file name.
\<close>

type_synonym path = "string \<times> string"

record Deployment =
  name :: string
  url :: string
  type :: string

record DeploymentsConfig =
  active :: "string option"
  deployments :: "Deployment list"
  private_path :: "path option"

subsection \<open>Files\<close>

text \<open>
  A permission mode is a machine word; \<open>0o600\<close> is 384, \<open>0o666\<close> is 438 and \<open>0o200\<close>,
  the write bit of the owner, is 128. A file has a content and a mode. The content of a
  registry file that \<open>yaml.safe_dump\<close> wrote is the dumped dict, \<open>active\<close> and
  \<open>deployments\<close>; any other content is text.
\<close>

type_synonym mode = "32 word"

definition mode_0o600 :: mode where
  "mode_0o600 = 384"

definition mode_0o666 :: mode where
  "mode_0o666 = 438"

definition mode_0o200 :: mode where
  "mode_0o200 = 128"

datatype content = Text string | Yaml "string option" "Deployment list"

record stored_file =
  content :: content
  mode :: mode

text \<open>
  The file operations that the operating system performs one at a time.
  \<open>Mkdir\<close> is \<open>mkdir(parents=True, exist_ok=True)\<close>, \<open>Touch\<close> is \<open>Path.touch(mode)\<close>
  and \<open>WriteText\<close> is \<open>Path.write_text\<close>. \<open>CreateTemp\<close> is
  \<open>NamedTemporaryFile("w")\<close>; \<open>WriteTemp\<close> is the dump into the temporary file and its
  flush; \<open>DeleteTemp\<close> is the end of the \<open>with\<close> block. \<open>shutil.copy(src, dst)\<close> is
  \<open>copyfile\<close> and then \<open>copymode\<close>: it opens \<open>dst\<close> for writing, which creates it empty
  or truncates it (\<open>OpenTruncate\<close>), writes the data of the source into it (\<open>WriteData\<close>)
  and gives it the mode of the source (\<open>CopyMode\<close>); no rename takes part. \<open>Chmod\<close> is
  \<open>Path.chmod\<close>.
\<close>

datatype fs_op =
    Mkdir string
  | Touch path mode
  | WriteText path string
  | CreateTemp
  | WriteTemp content
  | OpenTruncate path
  | WriteData path
  | CopyMode path
  | DeleteTemp
  | Chmod path mode

text \<open>
  The file system: the files by their paths, the directories that exist, the temporary
  file of \<open>tempfile.NamedTemporaryFile\<close> (a file of its own with a fresh name, so it is
  kept beside the named files), the \<open>umask\<close> of the process and whether the process is
  the superuser. The files are the process's own. \<open>refused\<close> gives the operations that the
  operating system refuses for a reason that is not part of this state (a full disk, a
  directory that may not be written, a missing directory for temporary files), with the
  error it raises.
\<close>

record filesystem =
  files :: "path \<Rightarrow> stored_file option"
  dirs :: "string set"
  temp :: "stored_file option"
  umask :: mode
  superuser :: bool
  refused :: "fs_op \<Rightarrow> exn option"

text \<open>
  A process that is not the superuser may open a file of its own for writing when the
  write bit of the owner is set. Opening a path for writing truncates the file that is
  there, when it may be written, and creates an empty file, of mode \<open>0o666\<close> less the bits
  of the umask, when there is none and the directory exists.
\<close>

definition writable :: "filesystem \<Rightarrow> stored_file \<Rightarrow> bool" where
  "writable fs f = (superuser fs \<or> mode f AND mode_0o200 \<noteq> 0)"

definition open_for_writing :: "path \<Rightarrow> filesystem \<Rightarrow> exn + filesystem" where
  "open_for_writing p fs =
     (case files fs p of
        None \<Rightarrow>
          if fst p \<in> dirs fs
          then Inr (fs\<lparr>files := (files fs)(p \<mapsto>
                       \<lparr>content = Text [], mode = mode_0o666 AND NOT (umask fs)\<rparr>)\<rparr>)
          else Inl (FileNotFoundError ''No such file or directory'')
      | Some f \<Rightarrow>
          if writable fs f
          then Inr (fs\<lparr>files := (files fs)(p \<mapsto> f\<lparr>content := Text []\<rparr>)\<rparr>)
          else Inl (PermissionError ''Permission denied''))"

text \<open>
  \<open>effect\<close> is what an operation does when the operating system does not refuse it: the
  new file system, or the error of a missing directory, a missing file or a file that
  may not be written. A new file gets the requested mode less the bits of the umask.
  \<open>exec\<close> performs one operation, and \<open>exec_all\<close> a list of them, up to the first that
  raises; it gives the file system as it then is.
\<close>

fun effect :: "fs_op \<Rightarrow> filesystem \<Rightarrow> exn + filesystem" where
  "effect (Mkdir d) fs = Inr (fs\<lparr>dirs := insert d (dirs fs)\<rparr>)"
| "effect (Touch p m) fs =
     (case files fs p of
        Some f \<Rightarrow> Inr fs
      | None \<Rightarrow>
          if fst p \<in> dirs fs
          then Inr (fs\<lparr>files := (files fs)(p \<mapsto>
                       \<lparr>content = Text [], mode = m AND NOT (umask fs)\<rparr>)\<rparr>)
          else Inl (FileNotFoundError ''No such file or directory''))"
| "effect (WriteText p text) fs =
     (case open_for_writing p fs of
        Inl e \<Rightarrow> Inl e
      | Inr fs' \<Rightarrow>
          (case files fs' p of
             None \<Rightarrow> Inl (FileNotFoundError ''No such file or directory'')
           | Some f \<Rightarrow> Inr (fs'\<lparr>files := (files fs')(p \<mapsto> f\<lparr>content := Text text\<rparr>)\<rparr>)))"
| "effect CreateTemp fs =
     Inr (fs\<lparr>temp := Some \<lparr>content = Text [], mode = mode_0o600 AND NOT (umask fs)\<rparr>\<rparr>)"
| "effect (WriteTemp c) fs =
     (case temp fs of
        None \<Rightarrow> Inl (FileNotFoundError ''No such file or directory'')
      | Some t \<Rightarrow> Inr (fs\<lparr>temp := Some (t\<lparr>content := c\<rparr>)\<rparr>))"
| "effect (OpenTruncate p) fs = open_for_writing p fs"
| "effect (WriteData p) fs =
     (case (temp fs, files fs p) of
        (Some t, Some f) \<Rightarrow> Inr (fs\<lparr>files := (files fs)(p \<mapsto> f\<lparr>content := content t\<rparr>)\<rparr>)
      | _ \<Rightarrow> Inl (FileNotFoundError ''No such file or directory''))"
| "effect (CopyMode p) fs =
     (case (temp fs, files fs p) of
        (Some t, Some f) \<Rightarrow> Inr (fs\<lparr>files := (files fs)(p \<mapsto> f\<lparr>mode := mode t\<rparr>)\<rparr>)
      | _ \<Rightarrow> Inl (FileNotFoundError ''No such file or directory''))"
| "effect DeleteTemp fs = Inr (fs\<lparr>temp := None\<rparr>)"
| "effect (Chmod p m) fs =
     (case files fs p of
        None \<Rightarrow> Inl (FileNotFoundError ''No such file or directory'')
      | Some f \<Rightarrow> Inr (fs\<lparr>files := (files fs)(p \<mapsto> f\<lparr>mode := m\<rparr>)\<rparr>))"

definition exec :: "fs_op \<Rightarrow> filesystem \<Rightarrow> exn + filesystem" where
  "exec op fs = (case refused fs op of Some e \<Rightarrow> Inl e | None \<Rightarrow> effect op fs)"

fun exec_all :: "fs_op list \<Rightarrow> filesystem \<Rightarrow> (exn + unit) \<times> filesystem" where
  "exec_all [] fs = (Inr (), fs)"
| "exec_all (op # ops) fs =
     (case exec op fs of
        Inl e \<Rightarrow> (Inl e, fs)
      | Inr fs' \<Rightarrow> exec_all ops fs')"

definition shutil_copy :: "path \<Rightarrow> fs_op list" where
  "shutil_copy dst = [OpenTruncate dst, WriteData dst, CopyMode dst]"

subsection \<open>The configuration\<close>

text \<open>
  \<open>DeploymentsConfig_write\<close> is the method \<open>write\<close>: the property \<open>path\<close> raises when
  \<open>_path\<close> is unset, before any file is touched. \<open>write_ops\<close> lists the file operations
  of a write in their order. The method performs them up to the first that raises; that
  error leaves the method, after the \<open>with\<close> block has deleted the temporary file.
  \<open>write_crashed n\<close> is the file system left by a process that is stopped after the
  first \<open>n\<close> operations of a write, as far as they can be performed.
\<close>

definition write_ops :: "DeploymentsConfig \<Rightarrow> path \<Rightarrow> fs_op list" where
  "write_ops self p =
     [CreateTemp, WriteTemp (Yaml (active self) (deployments self))]
     @ shutil_copy p
     @ [DeleteTemp, Chmod p mode_0o600]"

definition DeploymentsConfig_write ::
  "DeploymentsConfig \<Rightarrow> filesystem \<Rightarrow> (exn + unit) \<times> filesystem" where
  "DeploymentsConfig_write self fs =
     (case private_path self of
        None \<Rightarrow> (Inl (ValueError ''Path not set.''), fs)
      | Some p \<Rightarrow>
          (case exec_all (write_ops self p) fs of
             (Inr u, fs') \<Rightarrow> (Inr (), fs')
           | (Inl e, fs') \<Rightarrow> (Inl e, fs'\<lparr>temp := None\<rparr>)))"

definition write_crashed :: "nat \<Rightarrow> DeploymentsConfig \<Rightarrow> filesystem \<Rightarrow> filesystem" where
  "write_crashed n self fs =
     (case private_path self of
        None \<Rightarrow> fs
      | Some p \<Rightarrow> snd (exec_all (take n (write_ops self p)) fs))"

definition get_deployment :: "DeploymentsConfig \<Rightarrow> string \<Rightarrow> exn + Deployment" where
  "get_deployment self n =
     (case find (\<lambda>deployment. name deployment = n) (deployments self) of
        Some deployment \<Rightarrow> Inr deployment
      | None \<Rightarrow> Inl (ValueError (''Deployment '' @ n @ '' not found in deployments.'')))"

text \<open>
  \<open>get_active\<close>: Python's \<open>not active\<close> holds of \<open>None\<close> and of the empty string.
\<close>

definition get_active :: "DeploymentsConfig \<Rightarrow> exn + Deployment" where
  "get_active self =
     (case active self of
        None \<Rightarrow> Inl (ValueError ''No active deployment found.'')
      | Some a \<Rightarrow>
          if a = [] then Inl (ValueError ''No active deployment found.'')
          else
            (case get_deployment self a of
               Inr deployment \<Rightarrow> Inr deployment
             | Inl e \<Rightarrow>
                 if is_ValueError e
                 then Inl (ValueError (''Active deployment '' @ a @ '' not found in configuration.''))
                 else Inl e))"

text \<open>
  The methods that change the configuration change the object in place, so they give the
  configuration and the file system they leave, also when they raise.
\<close>

definition add_deployment ::
  "DeploymentsConfig \<Rightarrow> Deployment \<Rightarrow> filesystem \<Rightarrow>
   (exn + unit) \<times> DeploymentsConfig \<times> filesystem" where
  "add_deployment self deployment fs =
     (case (case get_deployment self (name deployment) of
              Inr d \<Rightarrow> Inr (Some d)
            | Inl e \<Rightarrow> if is_ValueError e then Inr None else Inl e) of
        Inl e \<Rightarrow> (Inl e, self, fs)
      | Inr (Some existing_deployment) \<Rightarrow>
          (Inl (ValueError (''Deployment '' @ name deployment @ '' already exists.'')), self, fs)
      | Inr None \<Rightarrow>
          (let self = self\<lparr>deployments := deployments self @ [deployment]\<rparr>;
               self = self\<lparr>active := Some (name deployment)\<rparr>
           in case DeploymentsConfig_write self fs of (r, fs') \<Rightarrow> (r, self, fs')))"

definition switch ::
  "DeploymentsConfig \<Rightarrow> string \<Rightarrow> filesystem \<Rightarrow>
   (exn + unit) \<times> DeploymentsConfig \<times> filesystem" where
  "switch self n fs =
     (if active self = Some n then (Inr (), self, fs)
      else if \<not> (\<exists>deployment \<in> set (deployments self). name deployment = n)
      then (Inl (ValueError (''Deployment '' @ n @ '' not found in deployments.'')), self, fs)
      else
        (let self = self\<lparr>active := Some n\<rparr>
         in case DeploymentsConfig_write self fs of (r, fs') \<Rightarrow> (r, self, fs')))"

text \<open>
  \<open>deployment_path\<close>: \<open>share_path\<close> is the constant \<open>SHARE_PATH\<close> of a module outside the
  modelled sources. The directory is made, and when no file is at the path the file is
  created by \<open>touch(0o600)\<close> and \<open>{}\<close> is written into it; \<open>write_text\<close> leaves the mode
  as it is. An error of one of these operations leaves the function.
\<close>

definition deployment_path ::
  "string \<Rightarrow> string \<Rightarrow> filesystem \<Rightarrow> (exn + path) \<times> filesystem" where
  "deployment_path real_home share_path fs =
     (let openstack = real_home @ ''/'' @ share_path
      in case exec (Mkdir openstack) fs of
           Inl e \<Rightarrow> (Inl e, fs)
         | Inr fs1 \<Rightarrow>
             (let path = (openstack, ''deployments.yaml'')
              in if files fs1 path = None
                 then (case exec_all [Touch path mode_0o600, WriteText path ''{}''] fs1 of
                         (Inl e, fs2) \<Rightarrow> (Inl e, fs2)
                       | (Inr u, fs2) \<Rightarrow> (Inr path, fs2))
                 else (Inr path, fs1)))"

section \<open>Example inputs\<close>

definition example_deployment :: DeploymentHandle where
  "example_deployment =
     \<lparr>get_space = (\<lambda>n. case n of
                      Networks.MANAGEMENT \<Rightarrow> Inr ''alpha''
                    | Networks.STORAGE \<Rightarrow> Inr ''alpha''
                    | Networks.DATA \<Rightarrow> Inr ''beta''),
      openstack_machines_model = ''openstack-machines''\<rparr>"

definition example_feature :: InstanceRecoveryFeature where
  "example_feature =
     \<lparr>get_config_from_manifest = (\<lambda>charm k. []),
      set_application_timeout_on_enable = 1800,
      set_application_timeout_on_disable = 1800,
      update_config = (\<lambda>key tfvars. Inr ())\<rparr>"

definition example_tfhelper :: TerraformHelper where
  "example_tfhelper =
     \<lparr>backend = ''http'',
      backend_config = [],
      update_tfvars_and_apply_tf = (\<lambda>key tfvars args. Inr ()),
      destroy = Inr ()\<rparr>"

definition failing_tfhelper :: TerraformHelper where
  "failing_tfhelper =
     \<lparr>backend = ''http'',
      backend_config = [],
      update_tfvars_and_apply_tf = (\<lambda>key tfvars args. Inl (TerraformException ''apply failed...'')),
      destroy = Inl (TerraformException ''destroy failed...'')\<rparr>"

definition example_jhelper :: JujuHelper where
  "example_jhelper =
     \<lparr>wait_until_desired_status = (\<lambda>model apps status timeout queue. Inr ()),
      wait_until_active = (\<lambda>model apps timeout. Inr ()),
      wait_application_ready = (\<lambda>app model timeout. Inr ()),
      wait_application_gone = (\<lambda>apps model timeout. Inr ()),
      wait_model_gone = (\<lambda>model timeout. Inr ()),
      get_application_names = (\<lambda>model. Inr [''grafana'', ''loki'']),
      get_model = (\<lambda>model. Inr model),
      get_application = (\<lambda>app model. Inr app),
      disconnect = (\<lambda>model. Inr ())\<rparr>"

definition example_plugin :: ObservabilityPlugin where
  "example_plugin =
     \<lparr>proxy_model_config = [],
      MICROK8S_CLOUD = ''sunbeam-microk8s'',
      CREDENTIAL_SUFFIX = ''-creds'',
      MICROK8S_DEFAULT_STORAGECLASS = ''microk8s-hostpath'',
      manifest_update_tfvars_and_apply_tf = (\<lambda>tfplan key tfvars args. Inr ()),
      get_tfhelper = (\<lambda>tfplan. example_tfhelper),
      infrastructure_model = ''controller''\<rparr>"

definition failing_plugin :: ObservabilityPlugin where
  "failing_plugin =
     example_plugin
       \<lparr>manifest_update_tfvars_and_apply_tf :=
          (\<lambda>tfplan key tfvars args. Inl (TerraformException ''apply failed...'')),
        get_tfhelper := (\<lambda>tfplan. failing_tfhelper)\<rparr>"

definition wait_error_jhelper :: JujuHelper where
  "wait_error_jhelper =
     example_jhelper
       \<lparr>wait_until_desired_status :=
          (\<lambda>model apps status timeout queue. Inl (JujuWaitException ''unit in error state'')),
        wait_until_active := (\<lambda>model apps timeout. Inl (JujuWaitException ''unit in error state'')),
        wait_application_ready :=
          (\<lambda>app model timeout. Inl (JujuWaitException ''unit in error state'')),
        wait_application_gone :=
          (\<lambda>apps model timeout. Inl (JujuWaitException ''unit in error state'')),
        wait_model_gone := (\<lambda>model timeout. Inl (JujuWaitException ''unit in error state''))\<rparr>"

definition timeout_jhelper :: JujuHelper where
  "timeout_jhelper =
     example_jhelper
       \<lparr>wait_until_desired_status :=
          (\<lambda>model apps status timeout queue. Inl (TimeoutException ''timed out'')),
        wait_until_active := (\<lambda>model apps timeout. Inl (TimeoutException ''timed out'')),
        wait_application_ready := (\<lambda>app model timeout. Inl (TimeoutException ''timed out'')),
        wait_application_gone := (\<lambda>apps model timeout. Inl (TimeoutException ''timed out'')),
        wait_model_gone := (\<lambda>model timeout. Inl (TimeoutException ''timed out''))\<rparr>"

definition absent_jhelper :: JujuHelper where
  "absent_jhelper =
     example_jhelper
       \<lparr>get_application :=
          (\<lambda>app model. Inl (ApplicationNotFoundException ''Application missing from model''))\<rparr>"

definition ok_step :: "nat BaseStep" where
  "ok_step =
     \<lparr>is_skip = (\<lambda>w. (Inr (Result COMPLETED None), w)),
      run = (\<lambda>w. (Inr (Result COMPLETED None), Suc w))\<rparr>"

definition skipped_step :: "nat BaseStep" where
  "skipped_step =
     \<lparr>is_skip = (\<lambda>w. (Inr (Result SKIPPED None), w)),
      run = (\<lambda>w. (Inr (Result COMPLETED None), Suc w))\<rparr>"

definition failing_step :: "nat BaseStep" where
  "failing_step =
     \<lparr>is_skip = (\<lambda>w. (Inr (Result COMPLETED None), w)),
      run = (\<lambda>w. (Inr (Result FAILED (Some ''apply failed...'')), Suc w))\<rparr>"

definition example_plan :: "nat BaseStep list" where
  "example_plan = [ok_step, skipped_step, failing_step, ok_step]"

definition local_deployment :: Deployment where
  "local_deployment = \<lparr>name = ''local'', url = ''10.0.0.10'', type = ''local''\<rparr>"

definition maas_deployment :: Deployment where
  "maas_deployment = \<lparr>name = ''maas'', url = ''http://maas:5240/MAAS'', type = ''maas''\<rparr>"

definition registry_path :: path where
  "registry_path = (''/home/ubuntu/.local/share/openstack'', ''deployments.yaml'')"

definition example_config :: DeploymentsConfig where
  "example_config =
     \<lparr>active = Some ''local'', deployments = [local_deployment],
      private_path = Some registry_path\<rparr>"

definition dangling_config :: DeploymentsConfig where
  "dangling_config =
     \<lparr>active = Some ''foo'', deployments = [], private_path = Some registry_path\<rparr>"

definition empty_active_config :: DeploymentsConfig where
  "empty_active_config =
     \<lparr>active = Some [], deployments = [], private_path = Some registry_path\<rparr>"

definition maas_config :: DeploymentsConfig where
  "maas_config =
     \<lparr>active = Some ''maas'', deployments = [local_deployment, maas_deployment],
      private_path = Some registry_path\<rparr>"

definition example_fs :: filesystem where
  "example_fs =
     \<lparr>files = Map.empty(registry_path \<mapsto>
                 \<lparr>content = Yaml (Some ''local'') [local_deployment], mode = mode_0o600\<rparr>),
      dirs = {''/home/ubuntu/.local/share/openstack''},
      temp = None,
      umask = 18,
      superuser = False,
      refused = (\<lambda>op. None)\<rparr>"

definition fresh_fs :: filesystem where
  "fresh_fs =
     \<lparr>files = Map.empty, dirs = {}, temp = None, umask = 18, superuser = False,
      refused = (\<lambda>op. None)\<rparr>"

definition masked_fs :: filesystem where
  "masked_fs = fresh_fs\<lparr>umask := 256\<rparr>"

section \<open>Properties of the consul servers\<close>

lemma try_get_space_space:
  "is_ValueError_or_value (get_space deployment n) \<Longrightarrow>
   try_get_space deployment n = Inr (space deployment n)"
  by (cases "get_space deployment n") (simp_all add: try_get_space_def space_def)

lemma consul_servers_to_enable_eq:
  assumes "only_ValueError deployment"
  shows "consul_servers_to_enable deployment = Inr
     [(ConsulServerNetworks.MANAGEMENT, space deployment Networks.MANAGEMENT \<noteq> None),
      (ConsulServerNetworks.TENANT,
         space deployment Networks.DATA \<noteq> None
         \<and> space deployment Networks.DATA \<noteq> space deployment Networks.MANAGEMENT
         \<and> space deployment Networks.DATA \<noteq> space deployment Networks.STORAGE),
      (ConsulServerNetworks.STORAGE,
         space deployment Networks.STORAGE \<noteq> None
         \<and> space deployment Networks.STORAGE \<noteq> space deployment Networks.MANAGEMENT)]"
proof -
  have m: "try_get_space deployment Networks.MANAGEMENT
             = Inr (space deployment Networks.MANAGEMENT)"
    using assms by (simp add: only_ValueError_def try_get_space_space)
  have s: "try_get_space deployment Networks.STORAGE
             = Inr (space deployment Networks.STORAGE)"
    using assms by (simp add: only_ValueError_def try_get_space_space)
  have t: "try_get_space deployment Networks.DATA = Inr (space deployment Networks.DATA)"
    using assms by (simp add: only_ValueError_def try_get_space_space)
  show ?thesis
    unfolding consul_servers_to_enable_def by (simp add: m s t Let_def)
qed

text \<open>
  C10. For every deployment whose spaces fail to resolve by \<open>ValueError\<close> only,
  \<open>consul_servers_to_enable\<close> returns a dict that enables the management network exactly
  when a management space is resolvable, the storage network exactly when a storage space
  is resolvable and differs from the management space, and the tenant network exactly
  when a data space is resolvable and differs from both; so two different enabled
  networks never resolve to the same space, and with no resolvable space none is enabled.
\<close>

theorem consul_servers_to_enable_distinct_spaces:
  assumes "only_ValueError deployment"
  shows "\<exists>enable. consul_servers_to_enable deployment = Inr enable
     \<and> dict_get enable ConsulServerNetworks.MANAGEMENT
         = Some (space deployment Networks.MANAGEMENT \<noteq> None)
     \<and> dict_get enable ConsulServerNetworks.STORAGE
         = Some (space deployment Networks.STORAGE \<noteq> None
                 \<and> space deployment Networks.STORAGE \<noteq> space deployment Networks.MANAGEMENT)
     \<and> dict_get enable ConsulServerNetworks.TENANT
         = Some (space deployment Networks.DATA \<noteq> None
                 \<and> space deployment Networks.DATA \<noteq> space deployment Networks.MANAGEMENT
                 \<and> space deployment Networks.DATA \<noteq> space deployment Networks.STORAGE)
     \<and> (\<forall>a b. dict_get enable a = Some True \<longrightarrow> dict_get enable b = Some True \<longrightarrow> a \<noteq> b
           \<longrightarrow> space deployment (network_of a) \<noteq> space deployment (network_of b))
     \<and> ((\<forall>n. space deployment n = None) \<longrightarrow> (\<forall>k. dict_get enable k = Some False))"
proof -
  let ?enable = "[(ConsulServerNetworks.MANAGEMENT, space deployment Networks.MANAGEMENT \<noteq> None),
      (ConsulServerNetworks.TENANT,
         space deployment Networks.DATA \<noteq> None
         \<and> space deployment Networks.DATA \<noteq> space deployment Networks.MANAGEMENT
         \<and> space deployment Networks.DATA \<noteq> space deployment Networks.STORAGE),
      (ConsulServerNetworks.STORAGE,
         space deployment Networks.STORAGE \<noteq> None
         \<and> space deployment Networks.STORAGE \<noteq> space deployment Networks.MANAGEMENT)]"
  have eq: "consul_servers_to_enable deployment = Inr ?enable"
    by (rule consul_servers_to_enable_eq [OF assms])
  have distinct: "space deployment (network_of a) \<noteq> space deployment (network_of b)"
    if "dict_get ?enable a = Some True" "dict_get ?enable b = Some True" "a \<noteq> b" for a b
    using that by (cases a; cases b) (auto split: if_splits)
  have none: "dict_get ?enable k = Some False" if "\<forall>n. space deployment n = None" for k
    using that by (cases k) simp_all
  show ?thesis
    unfolding eq using distinct none by (intro exI [of _ ?enable]) simp
qed

theorem consul_servers_to_enable_distinct_spaces_witness:
  "only_ValueError example_deployment
   \<and> consul_servers_to_enable example_deployment
       = Inr [(ConsulServerNetworks.MANAGEMENT, True), (ConsulServerNetworks.TENANT, True),
              (ConsulServerNetworks.STORAGE, False)]"
proof -
  have h: "only_ValueError example_deployment"
    by (simp add: only_ValueError_def example_deployment_def)
  have sp: "space example_deployment Networks.MANAGEMENT = Some ''alpha''"
    "space example_deployment Networks.STORAGE = Some ''alpha''"
    "space example_deployment Networks.DATA = Some ''beta''"
    by (simp_all add: space_def example_deployment_def)
  obtain enable where e: "consul_servers_to_enable example_deployment = Inr enable"
    and m: "dict_get enable ConsulServerNetworks.MANAGEMENT = Some True"
    and s: "dict_get enable ConsulServerNetworks.STORAGE = Some False"
    and t: "dict_get enable ConsulServerNetworks.TENANT = Some True"
    using consul_servers_to_enable_distinct_spaces [OF h] by (auto simp: sp)
  have "consul_servers_to_enable example_deployment
          = Inr [(ConsulServerNetworks.MANAGEMENT, True), (ConsulServerNetworks.TENANT, True),
                 (ConsulServerNetworks.STORAGE, False)]"
    by (simp add: consul_servers_to_enable_eq [OF h] sp)
  with h e show ?thesis by simp
qed

section \<open>Properties of the steps\<close>

lemma example_apps:
  "set_consul_client_application_names example_deployment
     = Inr [''consul-client-management'', ''consul-client-tenant'']"
  by (simp add: set_consul_client_application_names_def consul_servers_to_enable_def
      try_get_space_def example_deployment_def Let_def)

lemma example_tfvars:
  "\<exists>tfvars. get_tfvars example_deployment example_feature example_tfhelper = Inr tfvars"
  by (simp add: get_tfvars_def consul_servers_to_enable_def try_get_space_def consul_block_def
      example_deployment_def example_feature_def example_tfhelper_def Let_def)

text \<open>
  C1. In each step that applies or destroys a Terraform plan, when the call to the
  provisioning collaborator raises \<open>TerraformException\<close> with the text \<open>m\<close>, \<open>run\<close>
  returns \<open>Result(FAILED, m)\<close>; no exception leaves \<open>run\<close>. The steps are
  \<open>DeployConsulClientStep\<close> (whose apply is reached when \<open>_get_tfvars\<close> has returned),
  \<open>RemoveConsulClientStep\<close>, \<open>DeployObservabilityStackStep\<close>,
  \<open>UpdateObservabilityModelConfigStep\<close>, \<open>DeployGrafanaAgentStep\<close>,
  \<open>RemoveObservabilityStackStep\<close> and \<open>RemoveGrafanaAgentStep\<close>.
\<close>

theorem provisioning_failure_gives_FAILED:
  "(get_tfvars deployment feature openstack_tfhelper = Inr tfvars
      \<longrightarrow> update_tfvars_and_apply_tf tfhelper CONSUL_CLIENT_CONFIG_KEY tfvars []
            = Inl (TerraformException m)
      \<longrightarrow> returned (DeployConsulClientStep_run deployment feature tfhelper openstack_tfhelper
                      jhelper app_desired_status task_finished)
            = Inr (Result FAILED (Some m)))
   \<and> (destroy tfhelper = Inl (TerraformException m)
      \<longrightarrow> RemoveConsulClientStep_run deployment feature tfhelper jhelper
            = Inr (Result FAILED (Some m)))
   \<and> (manifest_update_tfvars_and_apply_tf plugin COS_TFPLAN COS_CONFIG_KEY
         (cos_extra_tfvars plugin) [] = Inl (TerraformException m)
      \<longrightarrow> returned (DeployObservabilityStackStep_run plugin jhelper task_finished)
            = Inr (Result FAILED (Some m)))
   \<and> (manifest_update_tfvars_and_apply_tf plugin COS_TFPLAN COS_CONFIG_KEY
         (cos_extra_tfvars plugin) [''-target=juju_model.cos''] = Inl (TerraformException m)
      \<longrightarrow> UpdateObservabilityModelConfigStep_run plugin = Inr (Result FAILED (Some m)))
   \<and> (manifest_update_tfvars_and_apply_tf plugin GRAFANA_AGENT_TFPLAN GRAFANA_AGENT_CONFIG_KEY
         (grafana_agent_extra_tfvars plugin) [] = Inl (TerraformException m)
      \<longrightarrow> DeployGrafanaAgentStep_run plugin jhelper = Inr (Result FAILED (Some m)))
   \<and> (destroy (get_tfhelper plugin COS_TFPLAN) = Inl (TerraformException m)
      \<longrightarrow> RemoveObservabilityStackStep_run plugin jhelper = Inr (Result FAILED (Some m)))
   \<and> (destroy (get_tfhelper plugin GRAFANA_AGENT_TFPLAN) = Inl (TerraformException m)
      \<longrightarrow> RemoveGrafanaAgentStep_run plugin jhelper = Inr (Result FAILED (Some m)))"
  by (simp add: DeployConsulClientStep_run_def RemoveConsulClientStep_run_def
      DeployObservabilityStackStep_run_def UpdateObservabilityModelConfigStep_run_def
      DeployGrafanaAgentStep_run_def RemoveObservabilityStackStep_run_def
      RemoveGrafanaAgentStep_run_def exit_early_def Let_def)

theorem provisioning_failure_gives_FAILED_witness:
  "returned (DeployConsulClientStep_run example_deployment example_feature failing_tfhelper
       example_tfhelper example_jhelper [''active''] False)
     = Inr (Result FAILED (Some ''apply failed...''))
   \<and> RemoveConsulClientStep_run example_deployment example_feature failing_tfhelper
       example_jhelper = Inr (Result FAILED (Some ''destroy failed...''))
   \<and> returned (DeployObservabilityStackStep_run failing_plugin example_jhelper False)
     = Inr (Result FAILED (Some ''apply failed...''))
   \<and> UpdateObservabilityModelConfigStep_run failing_plugin
     = Inr (Result FAILED (Some ''apply failed...''))
   \<and> DeployGrafanaAgentStep_run failing_plugin example_jhelper
     = Inr (Result FAILED (Some ''apply failed...''))
   \<and> RemoveObservabilityStackStep_run failing_plugin example_jhelper
     = Inr (Result FAILED (Some ''destroy failed...''))
   \<and> RemoveGrafanaAgentStep_run failing_plugin example_jhelper
     = Inr (Result FAILED (Some ''destroy failed...''))"
proof -
  obtain tfvars where tv:
    "get_tfvars example_deployment example_feature example_tfhelper = Inr tfvars"
    using example_tfvars by blast
  have apply_fails:
    "update_tfvars_and_apply_tf failing_tfhelper CONSUL_CLIENT_CONFIG_KEY tfvars []
       = Inl (TerraformException ''apply failed...'')"
    "manifest_update_tfvars_and_apply_tf failing_plugin COS_TFPLAN COS_CONFIG_KEY
       (cos_extra_tfvars failing_plugin) [] = Inl (TerraformException ''apply failed...'')"
    "manifest_update_tfvars_and_apply_tf failing_plugin COS_TFPLAN COS_CONFIG_KEY
       (cos_extra_tfvars failing_plugin) [''-target=juju_model.cos'']
       = Inl (TerraformException ''apply failed...'')"
    "manifest_update_tfvars_and_apply_tf failing_plugin GRAFANA_AGENT_TFPLAN
       GRAFANA_AGENT_CONFIG_KEY (grafana_agent_extra_tfvars failing_plugin) []
       = Inl (TerraformException ''apply failed...'')"
    by (simp_all add: failing_tfhelper_def failing_plugin_def example_plugin_def)
  have destroy_fails:
    "destroy failing_tfhelper = Inl (TerraformException ''destroy failed...'')"
    "destroy (get_tfhelper failing_plugin COS_TFPLAN)
       = Inl (TerraformException ''destroy failed...'')"
    "destroy (get_tfhelper failing_plugin GRAFANA_AGENT_TFPLAN)
       = Inl (TerraformException ''destroy failed...'')"
    by (simp_all add: failing_tfhelper_def failing_plugin_def example_plugin_def)
  show ?thesis
    using tv apply_fails destroy_fails
      provisioning_failure_gives_FAILED [where deployment = example_deployment
        and feature = example_feature and tfhelper = failing_tfhelper
        and openstack_tfhelper = example_tfhelper and jhelper = example_jhelper
        and plugin = failing_plugin and tfvars = tfvars and m = "''apply failed...''"
        and app_desired_status = "[''active'']" and task_finished = False]
      provisioning_failure_gives_FAILED [where deployment = example_deployment
        and feature = example_feature and tfhelper = failing_tfhelper
        and openstack_tfhelper = example_tfhelper and jhelper = example_jhelper
        and plugin = failing_plugin and tfvars = tfvars and m = "''destroy failed...''"
        and app_desired_status = "[''active'']" and task_finished = False]
    by simp
qed



text \<open>
  C5. With the model reached and disconnected without an error, the skip check of
  \<open>DeployCertificatesProviderApplicationStep\<close> returns a result of type \<open>COMPLETED\<close>
  exactly when the application \<open>tls-operator\<close> is absent from the model (the lookup
  raises \<open>ApplicationNotFoundException\<close>), and a result of type \<open>SKIPPED\<close> exactly when
  the application exists (the lookup returns it).
\<close>

theorem is_skip_COMPLETED_iff_absent:
  assumes "get_model jhelper model_name = Inr model"
    and "disconnect jhelper model = Inr u"
  shows "((\<exists>r. DeployCertificatesProviderApplicationStep_is_skip jhelper model_name = Inr r
             \<and> result_type r = COMPLETED)
          = (\<exists>e. get_application jhelper APPLICATION model = Inl e
                 \<and> is_ApplicationNotFoundException e))
     \<and> ((\<exists>r. DeployCertificatesProviderApplicationStep_is_skip jhelper model_name = Inr r
             \<and> result_type r = SKIPPED)
          = (\<exists>app. get_application jhelper APPLICATION model = Inr app))"
  using assms
  by (cases "get_application jhelper APPLICATION model")
    (simp_all add: DeployCertificatesProviderApplicationStep_is_skip_def)

theorem is_skip_COMPLETED_iff_absent_witness:
  "(\<exists>r. DeployCertificatesProviderApplicationStep_is_skip absent_jhelper ''controller'' = Inr r
        \<and> result_type r = COMPLETED)
   \<and> (\<exists>r. DeployCertificatesProviderApplicationStep_is_skip example_jhelper ''controller''
            = Inr r
        \<and> result_type r = SKIPPED)"
proof -
  have a: "get_model absent_jhelper ''controller'' = Inr ''controller''"
    "disconnect absent_jhelper ''controller'' = Inr ()"
    "get_application absent_jhelper APPLICATION ''controller''
       = Inl (ApplicationNotFoundException ''Application missing from model'')"
    by (simp_all add: absent_jhelper_def example_jhelper_def)
  have b: "get_model example_jhelper ''controller'' = Inr ''controller''"
    "disconnect example_jhelper ''controller'' = Inr ()"
    "get_application example_jhelper APPLICATION ''controller'' = Inr APPLICATION"
    by (simp_all add: example_jhelper_def)
  show ?thesis
    using is_skip_COMPLETED_iff_absent [OF a(1) a(2)] a(3)
      is_skip_COMPLETED_iff_absent [OF b(1) b(2)] b(3)
    by simp
qed

text \<open>
  C3, as the claim states it, fails: \<open>RemoveObservabilityStackStep.run\<close> handles
  \<open>TimeoutException\<close> only, so a \<open>JujuWaitException\<close> of its wait leaves \<open>run\<close>.
\<close>

theorem remove_step_wait_failure_counterexample:
  "wait_model_gone wait_error_jhelper OBSERVABILITY_MODEL OBSERVABILITY_DEPLOY_TIMEOUT
     = Inl (JujuWaitException ''unit in error state'')
   \<and> RemoveObservabilityStackStep_run example_plugin wait_error_jhelper
     = Inl (JujuWaitException ''unit in error state'')"
  by (simp add: RemoveObservabilityStackStep_run_def wait_error_jhelper_def example_jhelper_def
      example_plugin_def example_tfhelper_def)

text \<open>
  C3, amended. In the steps that wait for applications to come up
  (\<open>DeployConsulClientStep\<close>, \<open>DeployObservabilityStackStep\<close>, \<open>DeployGrafanaAgentStep\<close>),
  a wait that raises \<open>JujuWaitException\<close> or \<open>TimeoutException\<close> makes \<open>run\<close> return
  \<open>Result(FAILED, str(e))\<close>, the text being the exception's own. In the steps that wait
  for something to go away (\<open>RemoveConsulClientStep\<close>, \<open>RemoveObservabilityStackStep\<close>,
  \<open>RemoveGrafanaAgentStep\<close>), a \<open>TimeoutException\<close> of the wait gives
  \<open>Result(FAILED, str(e))\<close>, and any other exception, \<open>JujuWaitException\<close> too, leaves
  \<open>run\<close>. (The wait of \<open>DeployConsulClientStep\<close> is called with the queue that the step
  has created.)
\<close>

theorem wait_failure_results:
  "(get_tfvars deployment feature openstack_tfhelper = Inr tfvars
      \<longrightarrow> update_tfvars_and_apply_tf tfhelper CONSUL_CLIENT_CONFIG_KEY tfvars [] = Inr u
      \<longrightarrow> set_consul_client_application_names deployment = Inr apps
      \<longrightarrow> wait_until_desired_status jhelper (openstack_machines_model deployment) apps
            app_desired_status (set_application_timeout_on_enable feature)
            (fst (Queue_alloc (int (length apps)) [])) = Inl e
      \<longrightarrow> is_JujuWaitException e \<or> is_TimeoutException e
      \<longrightarrow> returned (DeployConsulClientStep_run deployment feature tfhelper openstack_tfhelper
                      jhelper app_desired_status task_finished)
            = Inr (Result FAILED (Some (str e))))
   \<and> (manifest_update_tfvars_and_apply_tf plugin COS_TFPLAN COS_CONFIG_KEY
         (cos_extra_tfvars plugin) [] = Inr u
      \<longrightarrow> get_application_names jhelper OBSERVABILITY_MODEL = Inr names
      \<longrightarrow> wait_until_active jhelper OBSERVABILITY_MODEL names OBSERVABILITY_DEPLOY_TIMEOUT = Inl e
      \<longrightarrow> is_JujuWaitException e \<or> is_TimeoutException e
      \<longrightarrow> returned (DeployObservabilityStackStep_run plugin jhelper task_finished)
            = Inr (Result FAILED (Some (str e))))
   \<and> (manifest_update_tfvars_and_apply_tf plugin GRAFANA_AGENT_TFPLAN GRAFANA_AGENT_CONFIG_KEY
         (grafana_agent_extra_tfvars plugin) [] = Inr u
      \<longrightarrow> wait_application_ready jhelper ''grafana-agent'' (infrastructure_model plugin)
            OBSERVABILITY_DEPLOY_TIMEOUT = Inl e
      \<longrightarrow> is_JujuWaitException e \<or> is_TimeoutException e
      \<longrightarrow> DeployGrafanaAgentStep_run plugin jhelper = Inr (Result FAILED (Some (str e))))
   \<and> (destroy tfhelper = Inr u
      \<longrightarrow> set_consul_client_application_names deployment = Inr apps
      \<longrightarrow> wait_application_gone jhelper apps (openstack_machines_model deployment)
            (set_application_timeout_on_disable feature) = Inl e
      \<longrightarrow> RemoveConsulClientStep_run deployment feature tfhelper jhelper
            = (if is_TimeoutException e then Inr (Result FAILED (Some (str e))) else Inl e))
   \<and> (destroy (get_tfhelper plugin COS_TFPLAN) = Inr u
      \<longrightarrow> wait_model_gone jhelper OBSERVABILITY_MODEL OBSERVABILITY_DEPLOY_TIMEOUT = Inl e
      \<longrightarrow> RemoveObservabilityStackStep_run plugin jhelper
            = (if is_TimeoutException e then Inr (Result FAILED (Some (str e))) else Inl e))
   \<and> (destroy (get_tfhelper plugin GRAFANA_AGENT_TFPLAN) = Inr u
      \<longrightarrow> wait_application_gone jhelper [''grafana-agent''] (infrastructure_model plugin)
            OBSERVABILITY_DEPLOY_TIMEOUT = Inl e
      \<longrightarrow> RemoveGrafanaAgentStep_run plugin jhelper
            = (if is_TimeoutException e then Inr (Result FAILED (Some (str e))) else Inl e))"
  by (simp add: DeployConsulClientStep_run_def RemoveConsulClientStep_run_def
      DeployObservabilityStackStep_run_def DeployGrafanaAgentStep_run_def
      RemoveObservabilityStackStep_run_def RemoveGrafanaAgentStep_run_def Let_def
      Queue_alloc_def)

theorem wait_failure_results_witness:
  "returned (DeployConsulClientStep_run example_deployment example_feature example_tfhelper
       example_tfhelper timeout_jhelper [''active''] False)
     = Inr (Result FAILED (Some ''timed out''))
   \<and> returned (DeployObservabilityStackStep_run example_plugin timeout_jhelper False)
     = Inr (Result FAILED (Some ''timed out''))
   \<and> DeployGrafanaAgentStep_run example_plugin timeout_jhelper
     = Inr (Result FAILED (Some ''timed out''))
   \<and> RemoveConsulClientStep_run example_deployment example_feature example_tfhelper
       timeout_jhelper = Inr (Result FAILED (Some ''timed out''))
   \<and> RemoveObservabilityStackStep_run example_plugin timeout_jhelper
     = Inr (Result FAILED (Some ''timed out''))
   \<and> RemoveGrafanaAgentStep_run example_plugin timeout_jhelper
     = Inr (Result FAILED (Some ''timed out''))
   \<and> DeployGrafanaAgentStep_run example_plugin wait_error_jhelper
     = Inr (Result FAILED (Some ''unit in error state''))"
proof -
  obtain tfvars where tv:
    "get_tfvars example_deployment example_feature example_tfhelper = Inr tfvars"
    using example_tfvars by blast
  have applied:
    "update_tfvars_and_apply_tf example_tfhelper CONSUL_CLIENT_CONFIG_KEY tfvars [] = Inr ()"
    "manifest_update_tfvars_and_apply_tf example_plugin COS_TFPLAN COS_CONFIG_KEY
       (cos_extra_tfvars example_plugin) [] = Inr ()"
    "manifest_update_tfvars_and_apply_tf example_plugin GRAFANA_AGENT_TFPLAN
       GRAFANA_AGENT_CONFIG_KEY (grafana_agent_extra_tfvars example_plugin) [] = Inr ()"
    "destroy example_tfhelper = Inr ()"
    "destroy (get_tfhelper example_plugin COS_TFPLAN) = Inr ()"
    "destroy (get_tfhelper example_plugin GRAFANA_AGENT_TFPLAN) = Inr ()"
    by (simp_all add: example_tfhelper_def example_plugin_def)
  have names: "get_application_names timeout_jhelper OBSERVABILITY_MODEL
                 = Inr [''grafana'', ''loki'']"
    by (simp add: timeout_jhelper_def example_jhelper_def)
  have waits:
    "wait_until_desired_status timeout_jhelper (openstack_machines_model example_deployment)
       [''consul-client-management'', ''consul-client-tenant''] [''active'']
       (set_application_timeout_on_enable example_feature) 0
       = Inl (TimeoutException ''timed out'')"
    "wait_until_active timeout_jhelper OBSERVABILITY_MODEL [''grafana'', ''loki'']
       OBSERVABILITY_DEPLOY_TIMEOUT = Inl (TimeoutException ''timed out'')"
    "wait_application_ready timeout_jhelper ''grafana-agent''
       (infrastructure_model example_plugin) OBSERVABILITY_DEPLOY_TIMEOUT
       = Inl (TimeoutException ''timed out'')"
    "wait_application_gone timeout_jhelper
       [''consul-client-management'', ''consul-client-tenant'']
       (openstack_machines_model example_deployment)
       (set_application_timeout_on_disable example_feature) = Inl (TimeoutException ''timed out'')"
    "wait_model_gone timeout_jhelper OBSERVABILITY_MODEL OBSERVABILITY_DEPLOY_TIMEOUT
       = Inl (TimeoutException ''timed out'')"
    "wait_application_gone timeout_jhelper [''grafana-agent'']
       (infrastructure_model example_plugin) OBSERVABILITY_DEPLOY_TIMEOUT
       = Inl (TimeoutException ''timed out'')"
    by (simp_all add: timeout_jhelper_def example_jhelper_def)
  have wait_error:
    "wait_application_ready wait_error_jhelper ''grafana-agent''
       (infrastructure_model example_plugin) OBSERVABILITY_DEPLOY_TIMEOUT
       = Inl (JujuWaitException ''unit in error state'')"
    by (simp add: wait_error_jhelper_def example_jhelper_def)
  show ?thesis
    using tv applied names waits wait_error example_apps
      wait_failure_results [where deployment = example_deployment
        and feature = example_feature and tfhelper = example_tfhelper
        and openstack_tfhelper = example_tfhelper and jhelper = timeout_jhelper
        and plugin = example_plugin and tfvars = tfvars and u = "()"
        and apps = "[''consul-client-management'', ''consul-client-tenant'']"
        and names = "[''grafana'', ''loki'']"
        and e = "TimeoutException ''timed out''"
        and app_desired_status = "[''active'']" and task_finished = False]
      wait_failure_results [where deployment = example_deployment
        and feature = example_feature and tfhelper = example_tfhelper
        and openstack_tfhelper = example_tfhelper and jhelper = wait_error_jhelper
        and plugin = example_plugin and tfvars = tfvars and u = "()"
        and apps = "[''consul-client-management'', ''consul-client-tenant'']"
        and names = "[''grafana'', ''loki'']"
        and e = "JujuWaitException ''unit in error state''"
        and app_desired_status = "[''active'']" and task_finished = False]
    by (simp add: Queue_alloc_def)
qed

text \<open>
  C4, as the claim states it, fails: when the background task is still running at the
  end of a successful wait, \<open>DeployConsulClientStep.run\<close> calls \<open>task.cancel()\<close> and
  returns at once. The cancellation is requested and not yet delivered: the task is not
  done when \<open>run\<close> returns.
\<close>

theorem cancellation_acknowledged_counterexample:
  "returned (DeployConsulClientStep_run example_deployment example_feature example_tfhelper
       example_tfhelper example_jhelper [''active''] False) = Inr (Result COMPLETED None)
   \<and> task (DeployConsulClientStep_run example_deployment example_feature example_tfhelper
       example_tfhelper example_jhelper [''active''] False) = Some CancelRequested
   \<and> \<not> task_done CancelRequested"
proof -
  obtain tfvars where tv:
    "get_tfvars example_deployment example_feature example_tfhelper = Inr tfvars"
    using example_tfvars by blast
  have applied:
    "update_tfvars_and_apply_tf example_tfhelper CONSUL_CLIENT_CONFIG_KEY tfvars [] = Inr ()"
    by (simp add: example_tfhelper_def)
  have waited:
    "wait_until_desired_status example_jhelper (openstack_machines_model example_deployment)
       [''consul-client-management'', ''consul-client-tenant''] [''active'']
       (set_application_timeout_on_enable example_feature) 0 = Inr ()"
    by (simp add: example_jhelper_def)
  show ?thesis
    by (simp add: DeployConsulClientStep_run_def tv applied waited example_apps Let_def
        Queue_alloc_def)
qed

text \<open>
  C4, amended. On every way out of \<open>DeployConsulClientStep.run\<close> and of
  \<open>DeployObservabilityStackStep.run\<close> after the background task has been started,
  whatever the wait gave (success, a wait failure, a timeout or any other exception), the
  task has either finished by itself or its cancellation has been requested. \<open>run\<close> does
  not wait for the cancellation to be delivered: a task that \<open>run\<close> leaves behind is
  never in the cancelled state, and never running without a cancellation request.
\<close>

theorem background_task_cancel_requested:
  "(get_tfvars deployment feature openstack_tfhelper = Inr tfvars
      \<longrightarrow> update_tfvars_and_apply_tf tfhelper CONSUL_CLIENT_CONFIG_KEY tfvars [] = Inr u
      \<longrightarrow> set_consul_client_application_names deployment = Inr apps
      \<longrightarrow> task (DeployConsulClientStep_run deployment feature tfhelper openstack_tfhelper
                  jhelper app_desired_status task_finished)
            = Some (if task_finished then Finished else CancelRequested))
   \<and> (manifest_update_tfvars_and_apply_tf plugin COS_TFPLAN COS_CONFIG_KEY
         (cos_extra_tfvars plugin) [] = Inr u
      \<longrightarrow> get_application_names jhelper OBSERVABILITY_MODEL = Inr names
      \<longrightarrow> task (DeployObservabilityStackStep_run plugin jhelper task_finished)
            = Some (if task_finished then Finished else CancelRequested))
   \<and> (task (DeployConsulClientStep_run deployment feature tfhelper openstack_tfhelper
               jhelper app_desired_status task_finished) = Some st
        \<or> task (DeployObservabilityStackStep_run plugin jhelper task_finished) = Some st
      \<longrightarrow> st \<noteq> Running \<and> st \<noteq> Cancelled)"
  by (auto simp add: DeployConsulClientStep_run_def DeployObservabilityStackStep_run_def
      exit_early_def Let_def Queue_alloc_def split: sum.splits if_splits)

theorem background_task_cancel_requested_witness:
  "task (DeployConsulClientStep_run example_deployment example_feature example_tfhelper
       example_tfhelper timeout_jhelper [''active''] False) = Some CancelRequested
   \<and> task (DeployObservabilityStackStep_run example_plugin timeout_jhelper True)
     = Some Finished"
proof -
  obtain tfvars where tv:
    "get_tfvars example_deployment example_feature example_tfhelper = Inr tfvars"
    using example_tfvars by blast
  have applied:
    "update_tfvars_and_apply_tf example_tfhelper CONSUL_CLIENT_CONFIG_KEY tfvars [] = Inr ()"
    "manifest_update_tfvars_and_apply_tf example_plugin COS_TFPLAN COS_CONFIG_KEY
       (cos_extra_tfvars example_plugin) [] = Inr ()"
    by (simp_all add: example_tfhelper_def example_plugin_def)
  have names: "get_application_names timeout_jhelper OBSERVABILITY_MODEL
                 = Inr [''grafana'', ''loki'']"
    by (simp add: timeout_jhelper_def example_jhelper_def)
  show ?thesis
    using tv applied names example_apps
      background_task_cancel_requested [where deployment = example_deployment
        and feature = example_feature and tfhelper = example_tfhelper
        and openstack_tfhelper = example_tfhelper and jhelper = timeout_jhelper
        and plugin = example_plugin and tfvars = tfvars and u = "()"
        and apps = "[''consul-client-management'', ''consul-client-tenant'']"
        and names = "[''grafana'', ''loki'']"
        and app_desired_status = "[''active'']" and task_finished = False]
      background_task_cancel_requested [where deployment = example_deployment
        and feature = example_feature and tfhelper = example_tfhelper
        and openstack_tfhelper = example_tfhelper and jhelper = timeout_jhelper
        and plugin = example_plugin and tfvars = tfvars and u = "()"
        and apps = "[''consul-client-management'', ''consul-client-tenant'']"
        and names = "[''grafana'', ''loki'']"
        and app_desired_status = "[''active'']" and task_finished = True]
    by simp
qed

section \<open>Properties of the plan runner\<close>

lemma run_plan_from_index:
  "\<forall>c \<in> set (fst (snd (run_plan_from i plan w))). i \<le> step_index c"
proof (induction plan arbitrary: i w)
  case Nil
  show ?case by simp
next
  case (Cons step plan)
  have tail: "i \<le> step_index c"
    if "c \<in> set (fst (snd (run_plan_from (Suc i) plan w')))" for w' c
    using Cons.IH [of "Suc i" w'] that by (auto dest: Suc_leD)
  show ?case
    by (auto simp: case_prod_beta split: sum.splits if_splits intro: tail)
qed

lemma run_plan_from_failed:
  "Call_run k (Inr r) \<in> set (fst (snd (run_plan_from i plan w))) \<Longrightarrow> result_type r = FAILED \<Longrightarrow>
   fst (run_plan_from i plan w) = Failure (message r)
   \<and> (\<forall>c \<in> set (fst (snd (run_plan_from i plan w))). step_index c \<le> k)"
proof (induction plan arbitrary: i w)
  case Nil
  then show ?case by simp
next
  case (Cons step plan)
  have below: "i \<le> k"
    if "Call_run k (Inr r) \<in> set (fst (snd (run_plan_from (Suc i) plan w')))" for w'
    using run_plan_from_index [of "Suc i" plan w'] that by fastforce
  have result: "fst (run_plan_from (Suc i) plan w') = Failure (message r)"
    if "Call_run k (Inr r) \<in> set (fst (snd (run_plan_from (Suc i) plan w')))" for w'
    using Cons.IH [OF that Cons.prems(2)] by simp
  have calls: "step_index c \<le> k"
    if "Call_run k (Inr r) \<in> set (fst (snd (run_plan_from (Suc i) plan w')))"
      and "c \<in> set (fst (snd (run_plan_from (Suc i) plan w')))" for w' c
    using Cons.IH [OF that(1) Cons.prems(2)] that(2) by simp
  show ?case
    using Cons.prems
    by (auto simp: case_prod_beta result split: sum.splits if_splits
        intro: calls dest: below)
qed

text \<open>
  C2. Whenever the log of \<open>run_plan\<close> holds a call of the \<open>run\<close> of step \<open>k\<close> that
  returned a result of type \<open>FAILED\<close>, \<open>run_plan\<close> reports failure with the message of
  that result, and every call of the log, of \<open>is_skip\<close> or of \<open>run\<close>, is to a step of
  index at most \<open>k\<close>: no later step is invoked.
\<close>

theorem run_plan_aborts_on_FAILED:
  assumes "Call_run k (Inr r) \<in> set (fst (snd (run_plan plan w)))"
    and "result_type r = FAILED"
  shows "fst (run_plan plan w) = Failure (message r)
     \<and> (\<forall>c \<in> set (fst (snd (run_plan plan w))). step_index c \<le> k)"
  using assms run_plan_from_failed [of k r 0 plan w] by (simp add: run_plan_def)

theorem run_plan_aborts_on_FAILED_witness:
  "run_plan example_plan 0
     = (Failure (Some ''apply failed...''),
        [Call_is_skip 0 (Inr (Result COMPLETED None)), Call_run 0 (Inr (Result COMPLETED None)),
         Call_is_skip 1 (Inr (Result SKIPPED None)),
         Call_is_skip 2 (Inr (Result COMPLETED None)),
         Call_run 2 (Inr (Result FAILED (Some ''apply failed...'')))],
        2)
   \<and> fst (run_plan example_plan 0) = Failure (message (Result FAILED (Some ''apply failed...'')))"
proof -
  have log: "run_plan example_plan 0
     = (Failure (Some ''apply failed...''),
        [Call_is_skip 0 (Inr (Result COMPLETED None)), Call_run 0 (Inr (Result COMPLETED None)),
         Call_is_skip 1 (Inr (Result SKIPPED None)),
         Call_is_skip 2 (Inr (Result COMPLETED None)),
         Call_run 2 (Inr (Result FAILED (Some ''apply failed...'')))],
        2)"
    by (simp add: run_plan_def example_plan_def ok_step_def skipped_step_def failing_step_def)
  have called: "Call_run 2 (Inr (Result FAILED (Some ''apply failed...'')))
                  \<in> set (fst (snd (run_plan example_plan 0)))"
    by (simp add: log)
  have failed: "result_type (Result FAILED (Some ''apply failed...'')) = FAILED"
    by simp
  show ?thesis
    using run_plan_aborts_on_FAILED [OF called failed] log by simp
qed

section \<open>Properties of the deployment registry\<close>

lemma get_deployment_None:
  "\<not> (\<exists>d \<in> set (deployments self). name d = n) \<Longrightarrow>
   get_deployment self n = Inl (ValueError (''Deployment '' @ n @ '' not found in deployments.''))"
proof -
  assume "\<not> (\<exists>d \<in> set (deployments self). name d = n)"
  then have "find (\<lambda>deployment. name deployment = n) (deployments self) = None"
    by (auto simp: find_None_iff)
  then show ?thesis
    unfolding get_deployment_def by simp
qed

lemma get_deployment_Some:
  "\<exists>d \<in> set (deployments self). name d = n \<Longrightarrow>
   \<exists>d. get_deployment self n = Inr d \<and> d \<in> set (deployments self) \<and> name d = n"
proof -
  assume "\<exists>d \<in> set (deployments self). name d = n"
  then have "find (\<lambda>deployment. name deployment = n) (deployments self) \<noteq> None"
    by (auto simp: find_None_iff)
  then obtain d where d: "find (\<lambda>deployment. name deployment = n) (deployments self) = Some d"
    by blast
  then have "name d = n \<and> d \<in> set (deployments self)"
    by (auto simp: find_Some_iff)
  with d show ?thesis by (simp add: get_deployment_def)
qed

text \<open>
  C6, as the claim states it, fails for the empty name: \<open>not active\<close> holds of the empty
  string, so a configuration whose active name is empty, with no deployment of that
  name, gets the error of an unset active deployment and not the "not found" error.
\<close>

theorem get_active_empty_name_counterexample:
  "active empty_active_config = Some []
   \<and> deployments empty_active_config = []
   \<and> get_active empty_active_config = Inl (ValueError ''No active deployment found.'')
   \<and> get_active empty_active_config
       \<noteq> Inl (ValueError (''Active deployment '' @ [] @ '' not found in configuration.''))"
  by (simp add: get_active_def empty_active_config_def)

text \<open>
  C6, amended. For every configuration whose active field is a non-empty name \<open>n\<close> that
  no deployment has, \<open>get_active\<close> raises the \<open>ValueError\<close> that the active deployment
  \<open>n\<close> was not found. When active is unset or the empty string it raises the
  \<open>ValueError\<close> that no active deployment was found. It never falls back to another
  deployment: a deployment it returns is in the list and has the active name.
\<close>

theorem get_active_not_found:
  "(active self = Some n \<longrightarrow> n \<noteq> [] \<longrightarrow> (\<forall>d \<in> set (deployments self). name d \<noteq> n)
      \<longrightarrow> get_active self
            = Inl (ValueError (''Active deployment '' @ n @ '' not found in configuration.'')))
   \<and> (active self = None \<or> active self = Some []
      \<longrightarrow> get_active self = Inl (ValueError ''No active deployment found.''))
   \<and> (\<forall>d. get_active self = Inr d
      \<longrightarrow> active self = Some (name d) \<and> d \<in> set (deployments self))"
proof (intro conjI impI allI)
  assume "active self = Some n" "n \<noteq> []" "\<forall>d \<in> set (deployments self). name d \<noteq> n"
  then show "get_active self
      = Inl (ValueError (''Active deployment '' @ n @ '' not found in configuration.''))"
    by (simp add: get_active_def get_deployment_None)
next
  assume "active self = None \<or> active self = Some []"
  then show "get_active self = Inl (ValueError ''No active deployment found.'')"
    by (auto simp: get_active_def)
next
  fix d
  assume r: "get_active self = Inr d"
  then obtain a where a: "active self = Some a" "a \<noteq> []"
    by (auto simp: get_active_def split: option.splits if_splits)
  with r have "get_deployment self a = Inr d"
    by (auto simp: get_active_def split: sum.splits if_splits)
  then have "find (\<lambda>deployment. name deployment = a) (deployments self) = Some d"
    by (auto simp: get_deployment_def split: option.splits)
  then have "name d = a \<and> d \<in> set (deployments self)"
    by (auto simp: find_Some_iff)
  with a show "active self = Some (name d)" and "d \<in> set (deployments self)"
    by simp_all
qed

theorem get_active_not_found_witness:
  "active dangling_config = Some ''foo''
   \<and> get_active dangling_config
       = Inl (ValueError ''Active deployment foo not found in configuration.'')"
proof -
  have a: "active dangling_config = Some ''foo''" and ne: "''foo'' \<noteq> []"
    and none: "\<forall>d \<in> set (deployments dangling_config). name d \<noteq> ''foo''"
    by (simp_all add: dangling_config_def)
  show ?thesis
    using get_active_not_found [of dangling_config "''foo''"] a ne none by simp
qed

subsection \<open>Writing the registry\<close>

lemma write_success_states:
  assumes "private_path self = Some p" and "DeploymentsConfig_write self fs = (Inr u, fs')"
  shows "temp (write_crashed 2 self fs)
           = Some \<lparr>content = Yaml (active self) (deployments self),
                   mode = mode_0o600 AND NOT (umask fs)\<rparr>"
    and "\<exists>f. files (write_crashed 3 self fs) p = Some f \<and> content f = Text []"
    and "files fs' p
           = Some \<lparr>content = Yaml (active self) (deployments self), mode = mode_0o600\<rparr>"
    and "temp fs' = None"
  using assms
  by (auto simp: DeploymentsConfig_write_def write_crashed_def write_ops_def shutil_copy_def
      exec_def open_for_writing_def numeral_2_eq_2 numeral_3_eq_3
      split: prod.splits sum.splits option.splits if_splits)

lemma write_success:
  assumes "DeploymentsConfig_write self fs = (Inr u, fs')"
  shows "\<exists>p. private_path self = Some p
     \<and> files fs' p
         = Some \<lparr>content = Yaml (active self) (deployments self), mode = mode_0o600\<rparr>"
proof -
  obtain p where p: "private_path self = Some p"
    using assms by (cases "private_path self") (simp_all add: DeploymentsConfig_write_def)
  with write_success_states(3) [OF p assms] show ?thesis
    by simp
qed

lemma example_write:
  "\<exists>fs'. DeploymentsConfig_write maas_config example_fs = (Inr (), fs')"
  by (simp add: DeploymentsConfig_write_def write_ops_def shutil_copy_def exec_def
      open_for_writing_def writable_def maas_config_def example_fs_def
      mode_0o600_def mode_0o200_def)

text \<open>
  A write into a directory that does not exist raises the error of \<open>shutil.copy\<close>, and
  \<open>add_deployment\<close> then raises it with the object already changed.
\<close>

lemma write_missing_directory:
  "DeploymentsConfig_write maas_config fresh_fs
     = (Inl (FileNotFoundError ''No such file or directory''), fresh_fs)"
  by (simp add: DeploymentsConfig_write_def write_ops_def shutil_copy_def exec_def
      open_for_writing_def maas_config_def fresh_fs_def)

lemma add_deployment_missing_directory:
  "add_deployment example_config maas_deployment fresh_fs
     = (Inl (FileNotFoundError ''No such file or directory''), maas_config, fresh_fs)"
proof -
  have "example_config\<lparr>deployments := deployments example_config @ [maas_deployment],
                        active := Some (name maas_deployment)\<rparr> = maas_config"
    by (simp add: example_config_def maas_config_def maas_deployment_def)
  moreover have "\<not> (\<exists>d \<in> set (deployments example_config). name d = name maas_deployment)"
    by (simp add: example_config_def local_deployment_def maas_deployment_def)
  ultimately show ?thesis
    by (simp add: add_deployment_def get_deployment_None write_missing_directory Let_def)
qed

text \<open>
  C7, as the claim states it, fails for \<open>switch\<close>: the test for the active name comes
  first, so switching to the name that is active returns without an error also when no
  deployment has that name.
\<close>

theorem switch_active_missing_counterexample:
  "active dangling_config = Some ''foo''
   \<and> deployments dangling_config = []
   \<and> switch dangling_config ''foo'' example_fs = (Inr (), dangling_config, example_fs)"
  by (simp add: switch_def dangling_config_def)

text \<open>
  C7, amended. \<open>add_deployment\<close>: when a deployment of the same name exists it raises a
  \<open>ValueError\<close> and leaves the deployments, the active name and the files unchanged;
  otherwise it appends the deployment, makes it the active one and writes the registry,
  and when that write returns, \<open>add_deployment\<close> returns with the object so changed and
  with the registry file holding the new configuration. \<open>switch(n)\<close>: when \<open>n\<close> is
  already active it returns and changes and writes nothing, whether or not a deployment
  is named \<open>n\<close>; otherwise, when no deployment is named \<open>n\<close>, it raises a \<open>ValueError\<close>
  and changes nothing; otherwise it makes \<open>n\<close> active and writes the registry, and when
  that write returns, \<open>switch\<close> returns with \<open>n\<close> active and with the registry file
  holding the new configuration. (A write that raises is not part of this statement.)
\<close>

theorem add_deployment_and_switch:
  "((\<exists>d \<in> set (deployments self). name d = name deployment)
      \<longrightarrow> add_deployment self deployment fs
            = (Inl (ValueError (''Deployment '' @ name deployment @ '' already exists.'')),
               self, fs))
   \<and> (\<not> (\<exists>d \<in> set (deployments self). name d = name deployment)
      \<longrightarrow> DeploymentsConfig_write
            (self\<lparr>deployments := deployments self @ [deployment],
                  active := Some (name deployment)\<rparr>) fs = (Inr u, fs')
      \<longrightarrow> add_deployment self deployment fs
            = (Inr (),
               self\<lparr>deployments := deployments self @ [deployment],
                    active := Some (name deployment)\<rparr>,
               fs')
          \<and> (\<exists>p. private_path self = Some p
                \<and> files fs' p
                   = Some \<lparr>content = Yaml (Some (name deployment))
                                      (deployments self @ [deployment]),
                           mode = mode_0o600\<rparr>))
   \<and> (active self = Some n \<longrightarrow> switch self n fs = (Inr (), self, fs))
   \<and> (active self \<noteq> Some n
      \<longrightarrow> \<not> (\<exists>d \<in> set (deployments self). name d = n)
      \<longrightarrow> switch self n fs
            = (Inl (ValueError (''Deployment '' @ n @ '' not found in deployments.'')),
               self, fs))
   \<and> (active self \<noteq> Some n
      \<longrightarrow> (\<exists>d \<in> set (deployments self). name d = n)
      \<longrightarrow> DeploymentsConfig_write (self\<lparr>active := Some n\<rparr>) fs = (Inr u, fs')
      \<longrightarrow> switch self n fs = (Inr (), self\<lparr>active := Some n\<rparr>, fs')
          \<and> (\<exists>p. private_path self = Some p
                \<and> files fs' p
                   = Some \<lparr>content = Yaml (Some n) (deployments self), mode = mode_0o600\<rparr>))"
proof (intro conjI impI)
  assume "\<exists>d \<in> set (deployments self). name d = name deployment"
  then obtain d where "get_deployment self (name deployment) = Inr d"
    using get_deployment_Some by blast
  then show "add_deployment self deployment fs
      = (Inl (ValueError (''Deployment '' @ name deployment @ '' already exists.'')), self, fs)"
    by (simp add: add_deployment_def)
next
  assume new: "\<not> (\<exists>d \<in> set (deployments self). name d = name deployment)"
    and w: "DeploymentsConfig_write
            (self\<lparr>deployments := deployments self @ [deployment],
                  active := Some (name deployment)\<rparr>) fs = (Inr u, fs')"
  from new w show "add_deployment self deployment fs
            = (Inr (),
               self\<lparr>deployments := deployments self @ [deployment],
                    active := Some (name deployment)\<rparr>,
               fs')"
    by (simp add: add_deployment_def get_deployment_None Let_def)
  from write_success [OF w]
  show "\<exists>p. private_path self = Some p
                \<and> files fs' p
                   = Some \<lparr>content = Yaml (Some (name deployment))
                                      (deployments self @ [deployment]),
                           mode = mode_0o600\<rparr>"
    by simp
next
  assume "active self = Some n"
  then show "switch self n fs = (Inr (), self, fs)"
    by (simp add: switch_def)
next
  assume "active self \<noteq> Some n" "\<not> (\<exists>d \<in> set (deployments self). name d = n)"
  then show "switch self n fs
      = (Inl (ValueError (''Deployment '' @ n @ '' not found in deployments.'')), self, fs)"
    by (simp add: switch_def)
next
  assume other: "active self \<noteq> Some n" and named: "\<exists>d \<in> set (deployments self). name d = n"
    and w: "DeploymentsConfig_write (self\<lparr>active := Some n\<rparr>) fs = (Inr u, fs')"
  from other named w show "switch self n fs = (Inr (), self\<lparr>active := Some n\<rparr>, fs')"
    by (simp add: switch_def Let_def)
  from write_success [OF w]
  show "\<exists>p. private_path self = Some p
                \<and> files fs' p
                   = Some \<lparr>content = Yaml (Some n) (deployments self), mode = mode_0o600\<rparr>"
    by simp
qed

theorem add_deployment_and_switch_witness:
  "add_deployment example_config local_deployment example_fs
     = (Inl (ValueError ''Deployment local already exists.''), example_config, example_fs)
   \<and> (\<exists>fs'. DeploymentsConfig_write maas_config example_fs = (Inr (), fs')
          \<and> add_deployment example_config maas_deployment example_fs
              = (Inr (), maas_config, fs')
          \<and> files fs' registry_path
              = Some \<lparr>content = Yaml (Some ''maas'') [local_deployment, maas_deployment],
                      mode = mode_0o600\<rparr>)
   \<and> switch example_config ''local'' example_fs = (Inr (), example_config, example_fs)
   \<and> switch example_config ''maas'' example_fs
       = (Inl (ValueError ''Deployment maas not found in deployments.''),
          example_config, example_fs)"
proof -
  have facts: "active example_config = Some ''local''"
    "deployments example_config = [local_deployment]"
    "private_path example_config = Some registry_path"
    "name local_deployment = ''local''" "name maas_deployment = ''maas''"
    by (simp_all add: example_config_def local_deployment_def maas_deployment_def)
  have added: "example_config\<lparr>deployments := [local_deployment, maas_deployment],
                  active := Some ''maas''\<rparr> = maas_config"
    by (simp add: example_config_def maas_config_def)
  obtain fs' where w: "DeploymentsConfig_write maas_config example_fs = (Inr (), fs')"
    using example_write by blast
  have dup: "add_deployment example_config local_deployment example_fs
     = (Inl (ValueError ''Deployment local already exists.''), example_config, example_fs)"
    and same: "switch example_config ''local'' example_fs = (Inr (), example_config, example_fs)"
    using add_deployment_and_switch [where self = example_config
        and deployment = local_deployment and fs = example_fs and n = "''local''"]
    by (simp_all add: facts)
  have new: "add_deployment example_config maas_deployment example_fs
              = (Inr (), maas_config, fs')
          \<and> files fs' registry_path
              = Some \<lparr>content = Yaml (Some ''maas'') [local_deployment, maas_deployment],
                      mode = mode_0o600\<rparr>"
    and missing: "switch example_config ''maas'' example_fs
       = (Inl (ValueError ''Deployment maas not found in deployments.''),
          example_config, example_fs)"
    using add_deployment_and_switch [where self = example_config
        and deployment = maas_deployment and fs = example_fs and n = "''maas''"
        and u = "()" and fs' = fs'] w
    by (simp_all add: facts added)
  from dup same new missing w show ?thesis
    by blast
qed

lemma mode_unmasked:
  fixes u :: mode
  assumes "u AND mode_0o600 = 0"
  shows "mode_0o600 AND NOT u = mode_0o600"
proof -
  have "mode_0o600 AND NOT u = (mode_0o600 AND u) OR (mode_0o600 AND NOT u)"
    using assms by (simp add: and.commute)
  also have "\<dots> = mode_0o600 AND (u OR NOT u)"
    by (simp only: bit.conj_disj_distrib)
  also have "\<dots> = mode_0o600"
    by simp
  finally show ?thesis .
qed

lemma write_crashed_before_copy:
  assumes "private_path self = Some p" and "n \<le> 2"
  shows "files (write_crashed n self fs) = files fs"
proof -
  from assms(2) have "n = 0 \<or> n = Suc 0 \<or> n = Suc (Suc 0)"
    by arith
  then show ?thesis
    using assms(1)
    by (auto simp: write_crashed_def write_ops_def exec_def split: option.splits)
qed

lemma deployment_path_created:
  assumes "deployment_path real_home share_path fs = (Inr created, fs2)"
    and "files fs created = None"
  shows "\<exists>f. files fs2 created = Some f \<and> content f = Text ''{}''
           \<and> mode f = mode_0o600 AND NOT (umask fs)
           \<and> (umask fs AND mode_0o600 = 0 \<longrightarrow> mode f = mode_0o600)"
  using assms
  by (auto simp: deployment_path_def exec_def open_for_writing_def Let_def mode_unmasked
      split: prod.splits sum.splits option.splits if_splits)

lemma example_deployment_path:
  "\<exists>fs2. deployment_path ''/home/ubuntu'' ''.local/share/openstack'' fresh_fs
           = (Inr registry_path, fs2)"
  by (simp add: deployment_path_def exec_def open_for_writing_def writable_def Let_def
      fresh_fs_def registry_path_def mode_0o600_def mode_0o200_def)

text \<open>
  Under a umask that masks the write bit of the owner (\<open>0o200\<close>, 128), a process that is
  not the superuser creates the file read-only and \<open>write_text\<close> raises.
\<close>

lemma deployment_path_unwritable:
  "fst (deployment_path ''/home/ubuntu'' ''.local/share/openstack'' (fresh_fs\<lparr>umask := 128\<rparr>))
     = Inl (PermissionError ''Permission denied'')"
  by (simp add: deployment_path_def exec_def open_for_writing_def writable_def Let_def
      fresh_fs_def mode_0o600_def mode_0o200_def)

text \<open>
  C9, as the claim states it, fails in two places. The copy is no atomic step: a process
  that stops after \<open>shutil.copy\<close> has opened the registry file, and before it has
  written the data, leaves the registry file empty, with neither the original content nor
  the new one. And the file that \<open>deployment_path\<close> creates need not have the mode
  \<open>0o600\<close>: under the umask \<open>0o400\<close> (256) it has the mode \<open>0o200\<close> (128).
\<close>

theorem write_crash_counterexample:
  "files example_fs registry_path
     = Some \<lparr>content = Yaml (Some ''local'') [local_deployment], mode = mode_0o600\<rparr>
   \<and> files (write_crashed 3 maas_config example_fs) registry_path
     = Some \<lparr>content = Text [], mode = mode_0o600\<rparr>
   \<and> fst (deployment_path ''/home/ubuntu'' ''.local/share/openstack'' masked_fs)
     = Inr registry_path
   \<and> files masked_fs registry_path = None
   \<and> files (snd (deployment_path ''/home/ubuntu'' ''.local/share/openstack'' masked_fs))
       registry_path = Some \<lparr>content = Text ''{}'', mode = 128\<rparr>
   \<and> (128 :: mode) \<noteq> mode_0o600"
  by (simp add: write_crashed_def write_ops_def shutil_copy_def deployment_path_def exec_def
      open_for_writing_def writable_def Let_def maas_config_def example_fs_def masked_fs_def
      fresh_fs_def registry_path_def numeral_3_eq_3 mode_0o600_def mode_0o200_def)

text \<open>
  C9, amended. \<open>write\<close> serialises the configuration to a temporary file first and only
  then copies it to the registry path: a process that stops before the copy starts has
  changed no named file. Whenever a write returns, the temporary file held the
  serialised configuration before the copy started; the copy, \<open>shutil.copy\<close>, was not
  atomic, since it first left the registry file empty and then wrote the new content;
  and after the write the registry file holds the serialised configuration and its mode
  is exactly \<open>0o600\<close>. Whenever \<open>deployment_path\<close> returns and has created the file, the
  file holds \<open>{}\<close> and has the mode \<open>0o600\<close> less the bits of the umask, which is exactly
  \<open>0o600\<close> when the umask masks none of these bits.
\<close>

theorem write_temp_then_copy:
  assumes "private_path self = Some p"
  shows "(\<forall>n \<le> 2. files (write_crashed n self fs) = files fs)
     \<and> (DeploymentsConfig_write self fs = (Inr u, fs')
        \<longrightarrow> temp (write_crashed 2 self fs)
              = Some \<lparr>content = Yaml (active self) (deployments self),
                      mode = mode_0o600 AND NOT (umask fs)\<rparr>
            \<and> (\<exists>f. files (write_crashed 3 self fs) p = Some f \<and> content f = Text [])
            \<and> files fs' p
               = Some \<lparr>content = Yaml (active self) (deployments self), mode = mode_0o600\<rparr>
            \<and> temp fs' = None)
     \<and> (deployment_path real_home share_path fs = (Inr created, fs2)
        \<longrightarrow> files fs created = None
        \<longrightarrow> (\<exists>f. files fs2 created = Some f
                 \<and> content f = Text ''{}''
                 \<and> mode f = mode_0o600 AND NOT (umask fs)
                 \<and> (umask fs AND mode_0o600 = 0 \<longrightarrow> mode f = mode_0o600)))"
proof (intro conjI impI)
  show "\<forall>n \<le> 2. files (write_crashed n self fs) = files fs"
    using write_crashed_before_copy [OF assms] by blast
next
  assume w: "DeploymentsConfig_write self fs = (Inr u, fs')"
  show "temp (write_crashed 2 self fs)
              = Some \<lparr>content = Yaml (active self) (deployments self),
                      mode = mode_0o600 AND NOT (umask fs)\<rparr>"
    by (rule write_success_states(1) [OF assms w])
  show "\<exists>f. files (write_crashed 3 self fs) p = Some f \<and> content f = Text []"
    by (rule write_success_states(2) [OF assms w])
  show "files fs' p
               = Some \<lparr>content = Yaml (active self) (deployments self), mode = mode_0o600\<rparr>"
    by (rule write_success_states(3) [OF assms w])
  show "temp fs' = None"
    by (rule write_success_states(4) [OF assms w])
next
  assume "deployment_path real_home share_path fs = (Inr created, fs2)"
    and "files fs created = None"
  then show "\<exists>f. files fs2 created = Some f
                 \<and> content f = Text ''{}''
                 \<and> mode f = mode_0o600 AND NOT (umask fs)
                 \<and> (umask fs AND mode_0o600 = 0 \<longrightarrow> mode f = mode_0o600)"
    by (rule deployment_path_created)
qed

theorem write_temp_then_copy_witness:
  "(\<exists>fs'. DeploymentsConfig_write maas_config example_fs = (Inr (), fs')
        \<and> files fs' registry_path
           = Some \<lparr>content = Yaml (Some ''maas'') [local_deployment, maas_deployment],
                   mode = mode_0o600\<rparr>)
   \<and> files (write_crashed 2 maas_config example_fs) = files example_fs
   \<and> (\<exists>fs2 f. deployment_path ''/home/ubuntu'' ''.local/share/openstack'' fresh_fs
                 = (Inr registry_path, fs2)
          \<and> files fs2 registry_path = Some f
          \<and> mode f = mode_0o600)"
proof -
  have p: "private_path maas_config = Some registry_path"
    and a: "active maas_config = Some ''maas''"
    and d: "deployments maas_config = [local_deployment, maas_deployment]"
    by (simp_all add: maas_config_def)
  obtain fs' where w: "DeploymentsConfig_write maas_config example_fs = (Inr (), fs')"
    using example_write by blast
  obtain fs2 where c:
    "deployment_path ''/home/ubuntu'' ''.local/share/openstack'' fresh_fs
       = (Inr registry_path, fs2)"
    using example_deployment_path by blast
  have absent: "files fresh_fs registry_path = None"
    and mask: "umask fresh_fs AND mode_0o600 = 0"
    by (simp_all add: fresh_fs_def mode_0o600_def)
  have two: "(2::nat) \<le> 2"
    by simp
  note t1 = write_temp_then_copy [OF p, where fs = example_fs and u = "()" and fs' = fs',
      unfolded a d]
  note t2 = write_temp_then_copy [OF p, where fs = fresh_fs
      and real_home = "''/home/ubuntu''" and share_path = "''.local/share/openstack''"
      and created = registry_path and ?fs2.0 = fs2]
  have written: "files fs' registry_path
           = Some \<lparr>content = Yaml (Some ''maas'') [local_deployment, maas_deployment],
                   mode = mode_0o600\<rparr>"
    using t1 w by blast
  have before: "files (write_crashed 2 maas_config example_fs) = files example_fs"
    using t1 two by blast
  have "\<exists>f. files fs2 registry_path = Some f \<and> mode f = mode_0o600"
    using t2 c absent mask by blast
  with w written before c show ?thesis
    by blast
qed

end
